theory Spec2Isabelle
  imports Main
begin

section \<open>Values of the Python program\<close>

text \<open>
  The worker handles JSON documents throughout: the inbound payload, the secrets, the
  bodies of the platform's answers and its own log entries. A parsed document is a value
  of \<open>json\<close>; an object is an association list in insertion order, read with
  \<open>map_of\<close>. JSON numbers with a fraction (Python floats) are left out of the
  model.
\<close>

datatype json =
    JNull
  | JBool bool
  | JInt int
  | JStr string
  | JArr "json list"
  | JObj "(string \<times> json) list"

text \<open>
  The exception classes the program raises, catches or lets through.
  \<open>Timeout\<close> is \<open>requests.exceptions.Timeout\<close>; \<open>RequestError\<close> is any
  other \<open>requests.exceptions.RequestException\<close> (ConnectionError, MissingSchema, ...);
  \<open>RequestsJSONDecodeError\<close> is \<open>requests.exceptions.JSONDecodeError\<close>, which
  \<open>response.json()\<close> raises since requests 2.27 and which is both a
  \<open>RequestException\<close> and a \<open>json.JSONDecodeError\<close>; \<open>JSONDecodeError\<close> is
  the plain \<open>json.JSONDecodeError\<close> (a \<open>ValueError\<close>), raised by
  \<open>json.loads\<close> and by \<open>response.json()\<close> of older versions of requests.
  The text of a KeyError is the repr of the key, as \<open>main\<close> prints it; the texts of
  TypeError, AttributeError and IndexError are never read by the program and are only
  indicative.
\<close>

datatype exn_class =
    Timeout
  | RequestError
  | RequestsJSONDecodeError
  | JSONDecodeError
  | KeyError
  | IndexError
  | TypeError
  | AttributeError
  | ClientError
  | RuntimeError
  | OtherError

datatype exn = Exn (cls: exn_class) (msg: string)

text \<open>\<open>except requests.exceptions.Timeout\<close>\<close>

definition is_Timeout :: "exn \<Rightarrow> bool" where
  "is_Timeout e = (cls e = Timeout)"

text \<open>\<open>except requests.exceptions.RequestException\<close>\<close>

definition is_RequestException :: "exn \<Rightarrow> bool" where
  "is_RequestException e =
     (cls e = Timeout \<or> cls e = RequestError \<or> cls e = RequestsJSONDecodeError)"

text \<open>\<open>except (KeyError, json.JSONDecodeError)\<close>\<close>

definition is_KeyError_or_JSONDecodeError :: "exn \<Rightarrow> bool" where
  "is_KeyError_or_JSONDecodeError e =
     (cls e = KeyError \<or> cls e = JSONDecodeError \<or> cls e = RequestsJSONDecodeError)"

subsection \<open>Text\<close>

text \<open>\<open>str(n)\<close> of an integer, in decimal.\<close>

function str_nat :: "nat \<Rightarrow> string" where
  "str_nat n =
     (if n < 10 then [''0123456789'' ! n]
      else str_nat (n div 10) @ [''0123456789'' ! (n mod 10)])"
  by pat_completeness auto
termination
  by (relation "measure (\<lambda>n. n)") auto

definition str_int :: "int \<Rightarrow> string" where
  "str_int i = (if i < 0 then CHR ''-'' # str_nat (nat (- i)) else str_nat (nat i))"

text \<open>
  \<open>s.replace(old, new)\<close>: every occurrence of \<open>old\<close>, left to right, without
  overlaps. With an empty \<open>old\<close> Python puts \<open>new\<close> before every character and
  at the end.
\<close>

function py_replace :: "string \<Rightarrow> string \<Rightarrow> string \<Rightarrow> string" where
  "py_replace old new s =
     (case s of
        [] \<Rightarrow> (if old = [] then new else [])
      | c # cs \<Rightarrow>
          (if old = [] then new @ c # py_replace old new cs
           else if take (length old) s = old
             then new @ py_replace old new (drop (length old) s)
           else c # py_replace old new cs))"
  by pat_completeness auto
termination
  by (relation "measure (\<lambda>(old, new, s). length s)") auto

text \<open>\<open>sub in s\<close> on strings.\<close>

fun py_in :: "string \<Rightarrow> string \<Rightarrow> bool" where
  "py_in sub [] = (sub = [])"
| "py_in sub (c # cs) = (take (length sub) (c # cs) = sub \<or> py_in sub cs)"

subsection \<open>Operations on parsed JSON\<close>

definition type_name :: "json \<Rightarrow> string" where
  "type_name j =
     (case j of JNull \<Rightarrow> ''NoneType'' | JBool _ \<Rightarrow> ''bool'' | JInt _ \<Rightarrow> ''int''
      | JStr _ \<Rightarrow> ''str'' | JArr _ \<Rightarrow> ''list'' | JObj _ \<Rightarrow> ''dict'')"

text \<open>
  \<open>d.get(key, default)\<close>. Only a dict has the method; on any other value the
  attribute lookup raises AttributeError.
\<close>

fun dict_get :: "json \<Rightarrow> string \<Rightarrow> json \<Rightarrow> exn + json" where
  "dict_get (JObj kvs) k d = Inr (case map_of kvs k of Some v \<Rightarrow> v | None \<Rightarrow> d)"
| "dict_get j k d =
     Inl (Exn AttributeError (type_name j @ '' object has no attribute get''))"

text \<open>
  \<open>obj[key]\<close> for a string key: KeyError on a dict without the key (its text is the
  repr of the key), TypeError on everything that is not a dict.
\<close>

fun getitem_key :: "json \<Rightarrow> string \<Rightarrow> exn + json" where
  "getitem_key (JObj kvs) k =
     (case map_of kvs k of
        Some v \<Rightarrow> Inr v
      | None \<Rightarrow> Inl (Exn KeyError (CHR 0x27 # k @ [CHR 0x27])))"
| "getitem_key j k = Inl (Exn TypeError (type_name j @ '' is not subscriptable by str''))"

text \<open>
  \<open>obj[i]\<close> for an integer index: a list or a string is indexed (negative indices
  count from the end, IndexError out of range); a dict parsed from JSON has only string
  keys, so an integer key is a KeyError; the other values are not subscriptable.
\<close>

definition norm_index :: "nat \<Rightarrow> int \<Rightarrow> nat option" where
  "norm_index len i =
     (if 0 \<le> i \<and> i < int len then Some (nat i)
      else if i < 0 \<and> - int len \<le> i then Some (nat (int len + i))
      else None)"

fun getitem_idx :: "json \<Rightarrow> int \<Rightarrow> exn + json" where
  "getitem_idx (JArr xs) i =
     (case norm_index (length xs) i of
        Some p \<Rightarrow> Inr (xs ! p)
      | None \<Rightarrow> Inl (Exn IndexError ''list index out of range''))"
| "getitem_idx (JStr s) i =
     (case norm_index (length s) i of
        Some p \<Rightarrow> Inr (JStr [s ! p])
      | None \<Rightarrow> Inl (Exn IndexError ''string index out of range''))"
| "getitem_idx (JObj kvs) i = Inl (Exn KeyError (str_int i))"
| "getitem_idx j i = Inl (Exn TypeError (type_name j @ '' object is not subscriptable''))"

text \<open>\<open>d[key] = value\<close>: a dict keeps the position of a key it has already.\<close>

fun alist_set :: "string \<Rightarrow> json \<Rightarrow> (string \<times> json) list \<Rightarrow> (string \<times> json) list" where
  "alist_set k v [] = [(k, v)]"
| "alist_set k v (p # ps) = (if fst p = k then (k, v) # ps else p # alist_set k v ps)"

fun setitem_key :: "json \<Rightarrow> string \<Rightarrow> json \<Rightarrow> exn + json" where
  "setitem_key (JObj kvs) k v = Inr (JObj (alist_set k v kvs))"
| "setitem_key j k v =
     Inl (Exn TypeError (type_name j @ '' object does not support item assignment''))"

text \<open>
  \<open>value == n\<close> for an integer literal \<open>n\<close>. Python's \<open>bool\<close> is a subclass of
  \<open>int\<close>: \<open>True == 1\<close> and \<open>False == 0\<close> hold.
\<close>

fun py_eq_int :: "json \<Rightarrow> int \<Rightarrow> bool" where
  "py_eq_int (JInt i) n = (i = n)"
| "py_eq_int (JBool b) n = ((if b then 1 else 0) = n)"
| "py_eq_int j n = False"

text \<open>\<open>for x in value\<close>: the elements of a list, the keys of a dict, the characters
  of a string; the other values are not iterable.\<close>

fun py_iter :: "json \<Rightarrow> exn + json list" where
  "py_iter (JArr xs) = Inr xs"
| "py_iter (JObj kvs) = Inr (map (\<lambda>p. JStr (fst p)) kvs)"
| "py_iter (JStr s) = Inr (map (\<lambda>c. JStr [c]) s)"
| "py_iter j = Inl (Exn TypeError (type_name j @ '' object is not iterable''))"

text \<open>\<open>range(n)\<close>: empty when \<open>n \<le> 0\<close>.\<close>

definition py_range :: "int \<Rightarrow> int list" where
  "py_range n = map int [0..<nat n]"

section \<open>The world the worker runs in\<close>

record request =
  url :: json
  headers :: json
  params :: json
  payload :: json
  timeout :: "int option"

text \<open>
  An HTTP response as the code reads it: \<open>status_code\<close>, \<open>text\<close> and the outcome
  of \<open>response.json()\<close>, which returns the parsed body or raises.
\<close>

record response =
  status_code :: int
  body_text :: string
  json_result :: "exn + json"

text \<open>
  What lies outside the repository is a parameter of the model:
  \<^item> \<open>RETRIES\<close> and \<open>TIMEOUT\<close>, read from the process environment at import
    (3 and 30 when unset), and \<open>AWS_LAMBDA_FUNCTION_NAME\<close>;
  \<^item> \<open>json_loads\<close>: \<open>json.loads\<close> on a string, \<open>Inl\<close> the text of the
    JSONDecodeError;
  \<^item> \<open>secret_value\<close>: what \<open>sm.get_secret_value(SecretId=..)\<close> followed by
    \<open>json.loads\<close> of its SecretString gives for a secret path;
  \<^item> \<open>http_post\<close>: the outcome of the n-th call of \<open>requests.post\<close> of the
    invocation (counted from 0) for the request made: a response or an exception;
  \<^item> \<open>py_repr\<close>: Python's text for a list or a dict inside an f-string;
  \<^item> the two card layouts, total functions of a log entry.
\<close>

record env =
  RETRIES :: int
  TIMEOUT :: int
  lambda_name :: string
  json_loads :: "string \<Rightarrow> string + json"
  secret_value :: "string \<Rightarrow> exn + json"
  http_post :: "nat \<Rightarrow> request \<Rightarrow> exn + response"
  py_repr :: "json \<Rightarrow> string"
  format_teams_notification :: "json \<Rightarrow> json"
  format_google_chat_notification :: "json \<Rightarrow> json"

text \<open>
  The effects of a run, in order. A \<open>Post\<close> is tagged with the function that made
  the call.
\<close>

datatype site = UpdateCall | QueryCall | TeamsCall | GoogleChatCall

datatype event =
    Log string json
  | Post site request
  | Sleep int
  | SecretFetch string

text \<open>
  The state of the process: the two module-level globals \<open>data_dsr\<close> and
  \<open>data_subtask\<close>, the number of \<open>requests.post\<close> calls made so far, and the
  effects so far.
\<close>

record state =
  data_dsr :: json
  data_subtask :: json
  calls :: nat
  trace :: "event list"

text \<open>
  A statement of the program takes the state and gives a result (\<open>Inl\<close>: the
  exception raised, \<open>Inr\<close>: the value) and the state it leaves.
\<close>

type_synonym 'a prog = "state \<Rightarrow> (exn + 'a) \<times> state"

definition return :: "'a \<Rightarrow> 'a prog" where
  "return a s = (Inr a, s)"

definition raise :: "exn \<Rightarrow> 'a prog" where
  "raise e s = (Inl e, s)"

definition bnd :: "'a prog \<Rightarrow> ('a \<Rightarrow> 'b prog) \<Rightarrow> 'b prog" where
  "bnd m f s = (case m s of (Inl e, s') \<Rightarrow> (Inl e, s') | (Inr a, s') \<Rightarrow> f a s')"

text \<open>An expression that may raise, evaluated inside a statement.\<close>

definition lift :: "exn + 'a \<Rightarrow> 'a prog" where
  "lift r s = (r, s)"

text \<open>\<open>try: m except ...: h\<close>; the handler re-raises what no clause matches.\<close>

definition catch :: "'a prog \<Rightarrow> (exn \<Rightarrow> 'a prog) \<Rightarrow> 'a prog" where
  "catch m h s = (case m s of (Inl e, s') \<Rightarrow> h e s' | (Inr a, s') \<Rightarrow> (Inr a, s'))"

text \<open>
  A \<open>for\<close> loop whose body may \<open>return\<close> from the enclosing function: the body
  gets the loop variable and the local variables the loop updates, and gives
  \<open>Inl r\<close> to return \<open>r\<close> or \<open>Inr v\<close> to go on with the locals \<open>v\<close>.
\<close>

fun for_each :: "'a list \<Rightarrow> ('a \<Rightarrow> 'v \<Rightarrow> ('r + 'v) prog) \<Rightarrow> 'v \<Rightarrow> ('r + 'v) prog" where
  "for_each [] body v = return (Inr v)"
| "for_each (x # xs) body v =
     bnd (body x v) (\<lambda>r. case r of Inl ret \<Rightarrow> return (Inl ret) | Inr v' \<Rightarrow> for_each xs body v')"

definition emit :: "event \<Rightarrow> unit prog" where
  "emit ev s = (Inr (), s\<lparr>trace := trace s @ [ev]\<rparr>)"

text \<open>\<open>requests.post(...)\<close>: the world answers the call.\<close>

definition requests_post :: "env \<Rightarrow> site \<Rightarrow> request \<Rightarrow> response prog" where
  "requests_post env site req s =
     (http_post env (calls s) req,
      s\<lparr>calls := calls s + 1, trace := trace s @ [Post site req]\<rparr>)"

text \<open>\<open>time.sleep(n)\<close>\<close>

definition time_sleep :: "int \<Rightarrow> unit prog" where
  "time_sleep n = emit (Sleep n)"

text \<open>\<open>str(value)\<close>, as an f-string formats a value.\<close>

definition py_str :: "env \<Rightarrow> json \<Rightarrow> string" where
  "py_str env j =
     (case j of
        JNull \<Rightarrow> ''None''
      | JBool b \<Rightarrow> (if b then ''True'' else ''False'')
      | JInt i \<Rightarrow> str_int i
      | JStr s \<Rightarrow> s
      | _ \<Rightarrow> py_repr env j)"

definition GLOBAL_SECURITI_URL :: string where
  "GLOBAL_SECURITI_URL = ''https://app.securiti.ai''"

section \<open>Logging\<close>

definition safe_get :: "json \<Rightarrow> string \<Rightarrow> exn + json" where
  "safe_get data key =
     (if data = JNull then Inr (JStr ''unknown'') else dict_get data key (JStr ''unknown''))"

text \<open>Sequencing of expressions that may raise.\<close>

definition and_then :: "exn + 'a \<Rightarrow> ('a \<Rightarrow> exn + 'b) \<Rightarrow> exn + 'b" where
  "and_then r f = (case r of Inl e \<Rightarrow> Inl e | Inr a \<Rightarrow> f a)"

definition create_log_entry ::
  "json \<Rightarrow> json \<Rightarrow> string \<Rightarrow> string \<Rightarrow> string \<Rightarrow> (string \<times> json) list \<Rightarrow> exn + json" where
  "create_log_entry dsr subtask ev status message kwargs =
     and_then (safe_get dsr ''lambda_name'') (\<lambda>v1.
     and_then (safe_get dsr ''enviroment'') (\<lambda>v2.
     and_then (safe_get dsr ''dsp_form_title'') (\<lambda>v3.
     and_then (safe_get dsr ''ticketId'') (\<lambda>v4.
     and_then (safe_get subtask ''task_id'') (\<lambda>v5.
     and_then (safe_get subtask ''subtask_id'') (\<lambda>v6.
     and_then (safe_get subtask ''title'') (\<lambda>v7.
       Inr (JObj (fold (\<lambda>p. alist_set (fst p) (snd p)) kwargs
         [(''event'', JStr ev),
          (''status'', JStr status),
          (''lambda_name'', v1),
          (''enviroment'', v2),
          (''form_title'', v3),
          (''ticket_id'', v4),
          (''task_id'', v5),
          (''subtask_id'', v6),
          (''subtask_title'', v7),
          (''message'', JStr message)])))))))))"

text \<open>
  \<open>log_event\<close> reads the two globals, builds the entry and hands it to the logger
  of its level; a level other than the three writes nothing.
\<close>

definition log_event ::
  "string \<Rightarrow> string \<Rightarrow> string \<Rightarrow> string \<Rightarrow> (string \<times> json) list \<Rightarrow> unit prog" where
  "log_event level ev status message kwargs s =
     bnd (lift (create_log_entry (data_dsr s) (data_subtask s) ev status message kwargs))
       (\<lambda>log_entry.
          if level = ''info'' then emit (Log level log_entry)
          else if level = ''warning'' then emit (Log level log_entry)
          else if level = ''error'' then emit (Log level log_entry)
          else return ()) s"

text \<open>Reading a global: \<open>data_dsr[key]\<close> and \<open>data_subtask[key]\<close>.\<close>

definition dsr_item :: "string \<Rightarrow> json prog" where
  "dsr_item key s = (getitem_key (data_dsr s) key, s)"

definition subtask_item :: "string \<Rightarrow> json prog" where
  "subtask_item key s = (getitem_key (data_subtask s) key, s)"

section \<open>Verification client\<close>

definition query_payload :: "json \<Rightarrow> json \<Rightarrow> json" where
  "query_payload ticket_id task_id =
     JObj [(''source'', JStr ''dsr_ticket''),
           (''response_config'', JObj [(''format'', JInt 1)]),
           (''fields'', JArr [JObj [(''name'', JStr ''task_id'')],
                              JObj [(''name'', JStr ''total_subtasks'')]]),
           (''order_by'', JArr [JStr ''datastore_name'']),
           (''filter'', JObj [(''op'', JStr ''and''),
              (''value'', JArr [
                 JObj [(''op'', JStr ''eq''), (''field'', JStr ''id''), (''value'', ticket_id)],
                 JObj [(''op'', JStr ''eq''), (''field'', JStr ''task_id''),
                       (''value'', task_id)]])])]"

definition query_request :: "env \<Rightarrow> json \<Rightarrow> json \<Rightarrow> json \<Rightarrow> request" where
  "query_request env secrets ticket_id task_id =
     \<lparr>url = JStr (GLOBAL_SECURITI_URL @ ''/reporting/v1/sources/query''),
      headers = secrets,
      params = JObj [(''ref'', JStr ''getListOfTasks'')],
      payload = query_payload ticket_id task_id,
      timeout = Some (TIMEOUT env)\<rparr>"

text \<open>\<open>(response.json())["data"][0].get("total_subtasks", 0) == 1\<close>\<close>

definition total_subtasks_is_1 :: "response \<Rightarrow> exn + bool" where
  "total_subtasks_is_1 resp =
     and_then (json_result resp) (\<lambda>j.
     and_then (getitem_key j ''data'') (\<lambda>d.
     and_then (getitem_idx d 0) (\<lambda>row.
     and_then (dict_get row ''total_subtasks'' (JInt 0)) (\<lambda>n.
       Inr (py_eq_int n 1)))))"

definition was_subtask_removed :: "env \<Rightarrow> json \<Rightarrow> (bool \<times> string) prog" where
  "was_subtask_removed env secrets =
     bnd (dsr_item ''ticketId'') (\<lambda>ticket_id.
     bnd (subtask_item ''task_id'') (\<lambda>task_id.
     catch
       (bnd (requests_post env QueryCall (query_request env secrets ticket_id task_id))
          (\<lambda>resp.
             if status_code resp \<noteq> 200 then
               bnd (log_event ''error'' ''was_subtask_removed'' ''http_error''
                      (''Status: '' @ str_int (status_code resp) @ '' - Response: ''
                         @ body_text resp) [])
                 (\<lambda>_. return (False, body_text resp))
             else
               bnd (lift (total_subtasks_is_1 resp)) (\<lambda>one.
                 if one then
                   bnd (log_event ''info'' ''was_subtask_removed'' ''success''
                          ''Subtask was successfully removed'' [])
                     (\<lambda>_. return (True, []))
                 else
                   bnd (lift (json_result resp)) (\<lambda>j.
                   bnd (log_event ''error'' ''was_subtask_removed'' ''error''
                          (''Subtask was not removed. Response data: '' @ py_str env j) [])
                     (\<lambda>_. return (False, body_text resp))))))
       (\<lambda>e.
          if is_Timeout e then
            bnd (log_event ''warning'' ''was_subtask_removed'' ''timeout''
                   ''Processing timeout'' [])
              (\<lambda>_. return (False, ''Processing timeout''))
          else if is_RequestException e then
            bnd (log_event ''error'' ''was_subtask_removed'' ''exception'' (msg e) [])
              (\<lambda>_. return (False, msg e))
          else raise e)))"

section \<open>Subtask resolver\<close>

definition update_url :: "env \<Rightarrow> json \<Rightarrow> string" where
  "update_url env subtask_id =
     GLOBAL_SECURITI_URL @ ''/privaci/v1/admin/dsr/subtasks/'' @ py_str env subtask_id
       @ ''/response/''"

definition update_request :: "env \<Rightarrow> string \<Rightarrow> json \<Rightarrow> request" where
  "update_request env u secrets =
     \<lparr>url = JStr u,
      headers = secrets,
      params = JNull,
      payload = JObj [(''status'', JInt 5)],
      timeout = Some (TIMEOUT env)\<rparr>"

text \<open>
  The body of the inner loop, \<open>for check_attempt in range(RETRIES)\<close>. The local
  \<open>error\<close> is the variable the loop assigns.
\<close>

definition check_body :: "env \<Rightarrow> int \<Rightarrow> string \<Rightarrow> ((bool \<times> string) + string) prog" where
  "check_body env check_attempt error =
     bnd (dsr_item ''secrets_header'') (\<lambda>secrets.
     bnd (was_subtask_removed env secrets) (\<lambda>r.
       if fst r then
         bnd (log_event ''info'' ''subtask_removed'' ''success''
                ''Subtask successfully removed'' [])
           (\<lambda>_. return (Inl (True, [])))
       else
         bnd (log_event ''info'' ''subtask_not_removed'' ''retry''
                (''Update Subtask - retry_attempt: '' @ str_int (check_attempt + 1)) [])
           (\<lambda>_. bnd (time_sleep 5) (\<lambda>_. return (Inr (snd r))))))"

text \<open>\<open>response.json().get("status")\<close>\<close>

definition body_status :: "response \<Rightarrow> exn + json" where
  "body_status resp = and_then (json_result resp) (\<lambda>j. dict_get j ''status'' JNull)"

text \<open>
  The body of the outer loop, \<open>for attempt in range(RETRIES)\<close>, with its
  \<open>try\<close> and the two \<open>except\<close> clauses. No statement of the \<open>try\<close> block
  that can raise a request exception comes after an assignment to \<open>error\<close>, so the
  handlers see the value \<open>error\<close> had when the iteration began.
\<close>

definition update_attempt ::
  "env \<Rightarrow> string \<Rightarrow> int \<Rightarrow> string \<Rightarrow> ((bool \<times> string) + string) prog" where
  "update_attempt env u attempt error =
     catch
       (bnd (log_event ''info'' ''update_subtask'' ''started''
               (''attempt: '' @ str_int (attempt + 1)) []) (\<lambda>_.
        bnd (dsr_item ''secrets_header'') (\<lambda>secrets.
        bnd (requests_post env UpdateCall (update_request env u secrets)) (\<lambda>resp.
          if status_code resp = 200 then
            bnd (lift (body_status resp)) (\<lambda>st.
              if py_eq_int st 0 then
                bnd (log_event ''info'' ''subtask_update'' ''started'' ''Process started'' [])
                  (\<lambda>_.
                bnd (for_each (py_range (RETRIES env)) (check_body env) error) (\<lambda>r.
                  case r of
                    Inl ret \<Rightarrow> return (Inl ret)
                  | Inr error' \<Rightarrow>
                      bnd (log_event ''error'' ''subtask_not_removed'' ''failure''
                             ''Unable to remove subtask after retries.'' [])
                        (\<lambda>_. return (Inl (False, ''Subtask not removed after retries.'')))))
              else
                bnd (lift (body_status resp)) (\<lambda>st'.
                bnd (log_event ''error'' ''subtask_update'' ''error''
                       (''API returned unexpected status: '' @ py_str env st') [])
                  (\<lambda>_. return
                     (Inl (False, ''API returned unexpected status: '' @ py_str env st')))))
          else
            bnd (log_event ''error'' ''subtask_update'' ''http_error''
                   (''status code: '' @ str_int (status_code resp) @ '' - response: ''
                      @ body_text resp) [])
              (\<lambda>_. return
                 (Inr (''Error updating subtask. Status code: ''
                         @ str_int (status_code resp) @ ''. Response: '' @ body_text resp)))))))
       (\<lambda>e.
          if is_Timeout e then
            bnd (log_event ''error'' ''subtask_update'' ''timeout'' ''Timeout'' [])
              (\<lambda>_. return (Inr error))
          else if is_RequestException e then
            bnd (log_event ''error'' ''subtask_update'' ''exception'' (msg e) [])
              (\<lambda>_. return (Inl (False, msg e)))
          else raise e)"

definition update_subtask :: "env \<Rightarrow> (bool \<times> string) prog" where
  "update_subtask env =
     bnd (subtask_item ''subtask_id'') (\<lambda>subtask_id.
     bnd (for_each (py_range (RETRIES env))
            (update_attempt env (update_url env subtask_id)) []) (\<lambda>r.
       case r of
         Inl ret \<Rightarrow> return ret
       | Inr error \<Rightarrow>
           bnd (log_event ''error'' ''subtask_update'' ''failure'' ''All retries failed.'' [])
             (\<lambda>_. return (False, error))))"

section \<open>Notification sink\<close>

definition teams_request :: "env \<Rightarrow> json \<Rightarrow> json \<Rightarrow> request" where
  "teams_request env u log_entry =
     \<lparr>url = u,
      headers = JObj [(''Content-Type'', JStr ''application/json'')],
      params = JNull,
      payload = format_teams_notification env log_entry,
      timeout = None\<rparr>"

definition google_chat_request :: "env \<Rightarrow> json \<Rightarrow> json \<Rightarrow> request" where
  "google_chat_request env u log_entry =
     \<lparr>url = u,
      headers = JObj [(''Content-Type'', JStr ''application/json'')],
      params = JNull,
      payload = format_google_chat_notification env log_entry,
      timeout = None\<rparr>"

definition send_google_chat_notification :: "env \<Rightarrow> json \<Rightarrow> unit prog" where
  "send_google_chat_notification env log_entry =
     bnd (dsr_item ''googleChat'') (\<lambda>u.
     bnd (requests_post env GoogleChatCall (google_chat_request env u log_entry)) (\<lambda>resp.
       if status_code resp \<noteq> 200 then
         log_event ''error'' ''send_google_chat_notification'' ''error''
           ''Failed to send notification to Google Chat.'' []
       else
         log_event ''info'' ''send_google_chat_notification'' ''success''
           ''Notification successfully sent to Google Chat.'' []))"

definition send_teams_notification :: "env \<Rightarrow> json \<Rightarrow> unit prog" where
  "send_teams_notification env log_entry =
     bnd (dsr_item ''microsoftTeams'') (\<lambda>u.
     bnd (requests_post env TeamsCall (teams_request env u log_entry)) (\<lambda>resp.
       if status_code resp \<noteq> 202 then
         log_event ''error'' ''send_teams_notification'' ''error''
           ''Failed to send notification to Teams.'' []
       else
         log_event ''info'' ''send_teams_notification'' ''success''
           ''Notification successfully sent to Teams.'' []))"

section \<open>Ticket orchestrator\<close>

definition set_data_subtask :: "json \<Rightarrow> unit prog" where
  "set_data_subtask subtask s = (Inr (), s\<lparr>data_subtask := subtask\<rparr>)"

text \<open>\<open>create_log_entry\<close> called as a statement: it reads the two globals.\<close>

definition current_log_entry :: "string \<Rightarrow> string \<Rightarrow> string \<Rightarrow> json prog" where
  "current_log_entry ev status message s =
     (create_log_entry (data_dsr s) (data_subtask s) ev status message [], s)"

text \<open>
  The first statements of the body of \<open>for subtask in data_dsr["task_subtask"]\<close>:
  the cursor \<open>data_subtask\<close> moves to the subtask, the start is logged and the
  resolver runs.
\<close>

definition resolve :: "env \<Rightarrow> json \<Rightarrow> (bool \<times> string) prog" where
  "resolve env subtask =
     bnd (set_data_subtask subtask) (\<lambda>_.
     bnd (log_event ''info'' ''update_subtask'' ''started'' ''Subtask update started'' [])
       (\<lambda>_. update_subtask env))"

text \<open>
  The body of the loop; \<open>Inl False\<close> is the \<open>return False\<close> inside it.
\<close>

definition process_body :: "env \<Rightarrow> json \<Rightarrow> unit \<Rightarrow> (bool + unit) prog" where
  "process_body env subtask u =
     bnd (resolve env subtask) (\<lambda>r.
       if \<not> fst r then
         bnd (log_event ''error'' ''subtask_update'' ''failed'' (snd r) []) (\<lambda>_.
         bnd (current_log_entry ''subtask_update'' ''failed'' (snd r)) (\<lambda>message.
         bnd (send_teams_notification env message) (\<lambda>_.
         bnd (send_google_chat_notification env message) (\<lambda>_.
           return (Inl False)))))
       else return (Inr ()))"

definition process_subtasks :: "env \<Rightarrow> bool prog" where
  "process_subtasks env =
     bnd (dsr_item ''task_subtask'') (\<lambda>ts.
     bnd (lift (py_iter ts)) (\<lambda>subtasks.
     bnd (for_each subtasks (process_body env) ()) (\<lambda>r.
       case r of Inl b \<Rightarrow> return b | Inr _ \<Rightarrow> return True)))"

section \<open>Entry point\<close>

definition get_secret :: "env \<Rightarrow> string \<Rightarrow> json prog" where
  "get_secret env secret =
     bnd (log_event ''info'' ''collecting_secrets'' ''started'' ''Collecting secrets'' [])
       (\<lambda>_.
     bnd (emit (SecretFetch secret)) (\<lambda>_.
     catch
       (bnd (lift (secret_value env secret)) (\<lambda>secret_data.
        bnd (log_event ''info'' ''collecting_secrets'' ''success'' ''Secrets collected'' [])
          (\<lambda>_. return secret_data)))
       (\<lambda>err.
          if cls err = ClientError then
            bnd (log_event ''error'' ''collecting_secrets'' ''error'' (msg err) [])
              (\<lambda>_. raise (Exn RuntimeError ''Failed to retrieve secrets''))
          else raise err)))"

text \<open>
  The answer of the invocation: the status code and the dict that is passed to
  \<open>json.dumps\<close> for the body.
\<close>

record lambda_response =
  statusCode :: int
  body :: json

text \<open>\<open>json.loads(event["data"].replace("'", '"'))\<close>\<close>

definition load_payload :: "env \<Rightarrow> json \<Rightarrow> exn + json" where
  "load_payload env event =
     and_then (getitem_key event ''data'') (\<lambda>d.
       case d of
         JStr s \<Rightarrow>
           (case json_loads env (py_replace [CHR 0x27] [CHR 0x22] s) of
              Inl m \<Rightarrow> Inl (Exn JSONDecodeError m)
            | Inr v \<Rightarrow> Inr v)
       | _ \<Rightarrow> Inl (Exn AttributeError (type_name d @ '' object has no attribute replace'')))"

definition set_data_dsr :: "json \<Rightarrow> unit prog" where
  "set_data_dsr d s = (Inr (), s\<lparr>data_dsr := d\<rparr>)"

text \<open>\<open>data_dsr[key] = value\<close>\<close>

definition set_dsr_item :: "string \<Rightarrow> json \<Rightarrow> unit prog" where
  "set_dsr_item key v s =
     (case setitem_key (data_dsr s) key v of
        Inl e \<Rightarrow> (Inl e, s)
      | Inr d \<Rightarrow> (Inr (), s\<lparr>data_dsr := d\<rparr>))"

text \<open>\<open>data_dsr["sm"].replace("{type}", ty)\<close>\<close>

definition sm_path :: "string \<Rightarrow> string prog" where
  "sm_path ty =
     bnd (dsr_item ''sm'') (\<lambda>v.
       case v of
         JStr p \<Rightarrow> return (py_replace ''{type}'' ty p)
       | _ \<Rightarrow> raise (Exn AttributeError (type_name v @ '' object has no attribute replace'')))"

text \<open>The statements of the second \<open>try\<close> block of \<open>main\<close>.\<close>

definition main_setup :: "env \<Rightarrow> unit prog" where
  "main_setup env =
     bnd (set_dsr_item ''lambda_name'' (JStr (lambda_name env))) (\<lambda>_.
     bnd (sm_path ''dsr'') (\<lambda>p.
     bnd (set_dsr_item ''enviroment'' (JStr (if py_in ''uat'' p then ''UAT'' else ''PROD'')))
       (\<lambda>_.
     bnd (sm_path ''dsr'') (\<lambda>p1.
     bnd (sm_path ''global'') (\<lambda>p2.
     bnd (get_secret env (p2 @ ''channel'')) (\<lambda>secret_data_channel.
     bnd (get_secret env (p1 @ ''token'')) (\<lambda>secret_data_token.
     bnd (lift (dict_get secret_data_channel ''googleChat'' JNull)) (\<lambda>g.
     bnd (set_dsr_item ''googleChat'' g) (\<lambda>_.
     bnd (lift (dict_get secret_data_channel ''microsoftTeams'' JNull)) (\<lambda>t.
     bnd (set_dsr_item ''microsoftTeams'' t) (\<lambda>_.
     bnd (lift (dict_get secret_data_token ''X-API-KEY'' JNull)) (\<lambda>k1.
     bnd (lift (dict_get secret_data_token ''X-API-SECRET'' JNull)) (\<lambda>k2.
     bnd (lift (dict_get secret_data_token ''X-TIDENT'' JNull)) (\<lambda>k3.
       set_dsr_item ''secrets_header''
         (JObj [(''X-API-KEY'', k1), (''X-API-SECRET'', k2), (''X-TIDENT'', k3)])
     ))))))))))))))"

text \<open>
  The two \<open>try\<close> blocks of \<open>main\<close>: \<open>Some\<close> the response of an early
  \<open>return\<close>, \<open>None\<close> when control reaches \<open>process_subtasks\<close>.
\<close>

definition main_prepare :: "env \<Rightarrow> json \<Rightarrow> string \<Rightarrow> lambda_response option prog" where
  "main_prepare env event context =
     bnd (log_event ''info'' ''main'' ''started'' ''Main function started''
            [(''context'', JStr context), (''event_data'', event)]) (\<lambda>_.
     case load_payload env event of
       Inl e \<Rightarrow>
         if is_KeyError_or_JSONDecodeError e then
           bnd (log_event ''error'' ''main'' ''error'' (msg e) []) (\<lambda>_.
             return (Some \<lparr>statusCode = 400,
               body = JObj [(''message'', JStr ''Invalid input data''),
                            (''error'', JStr (msg e))]\<rparr>))
         else raise e
     | Inr d \<Rightarrow>
         bnd (set_data_dsr d) (\<lambda>_.
         catch (bnd (main_setup env) (\<lambda>_. return None))
           (\<lambda>e. if cls e = RuntimeError then
                  return (Some \<lparr>statusCode = 401,
                    body = JObj [(''message'', JStr (msg e))]\<rparr>)
                else raise e)))"

definition main :: "env \<Rightarrow> json \<Rightarrow> string \<Rightarrow> lambda_response prog" where
  "main env event context =
     bnd (main_prepare env event context) (\<lambda>early.
       case early of
         Some resp \<Rightarrow> return resp
       | None \<Rightarrow>
           bnd (process_subtasks env) (\<lambda>result.
           bnd (dsr_item ''ticketId'') (\<lambda>ticket_id.
             if result then
               return \<lparr>statusCode = 200,
                 body = JObj [(''message'',
                    JStr ''All subtasks processed with notifications sent for failures.''),
                    (''dsr_id'', ticket_id)]\<rparr>
             else
               return \<lparr>statusCode = 500,
                 body = JObj [(''message'',
                    JStr ''Failed to process the DSR. Notifications sent.''),
                    (''dsr_id'', ticket_id)]\<rparr>)))"

section \<open>Vocabulary of the properties\<close>

text \<open>The effects of a run other than its log lines.\<close>

definition effects :: "event list \<Rightarrow> event list" where
  "effects evs = filter (\<lambda>ev. case ev of Log _ _ \<Rightarrow> False | _ \<Rightarrow> True) evs"

definition is_dict :: "json \<Rightarrow> bool" where
  "is_dict j = (case j of JObj _ \<Rightarrow> True | _ \<Rightarrow> False)"

text \<open>
  \<open>log_event\<close> raises nothing when each global is a dict or \<open>None\<close>.
\<close>

definition loggable :: "state \<Rightarrow> bool" where
  "loggable s =
     ((data_dsr s = JNull \<or> is_dict (data_dsr s))
      \<and> (data_subtask s = JNull \<or> is_dict (data_subtask s)))"

text \<open>The entry \<open>log_event\<close> writes in a loggable state.\<close>

definition log_entry_of ::
  "state \<Rightarrow> string \<Rightarrow> string \<Rightarrow> string \<Rightarrow> (string \<times> json) list \<Rightarrow> json" where
  "log_entry_of s ev status message kwargs =
     (case create_log_entry (data_dsr s) (data_subtask s) ev status message kwargs of
        Inr j \<Rightarrow> j
      | Inl _ \<Rightarrow> JNull)"

text \<open>
  The globals hold what the resolver reads: the credential headers and the ticket id in
  \<open>data_dsr\<close>, the task id and the subtask id in the current subtask.
\<close>

definition ready :: "state \<Rightarrow> json \<Rightarrow> json \<Rightarrow> json \<Rightarrow> json \<Rightarrow> bool" where
  "ready s secrets ticket_id task_id subtask_id =
     (getitem_key (data_dsr s) ''secrets_header'' = Inr secrets
      \<and> getitem_key (data_dsr s) ''ticketId'' = Inr ticket_id
      \<and> getitem_key (data_subtask s) ''task_id'' = Inr task_id
      \<and> getitem_key (data_subtask s) ''subtask_id'' = Inr subtask_id)"

text \<open>
  \<open>s'\<close> is reached from \<open>s\<close> by \<open>n\<close> HTTP calls and the effects \<open>evs\<close>, with
  the globals unchanged.
\<close>

definition reaches :: "state \<Rightarrow> nat \<Rightarrow> event list \<Rightarrow> state \<Rightarrow> bool" where
  "reaches s n evs s' =
     (data_dsr s' = data_dsr s \<and> data_subtask s' = data_subtask s
      \<and> calls s' = calls s + n \<and> effects (trace s') = effects (trace s) @ evs)"

text \<open>Outcomes of the update call.\<close>

definition accepted :: "exn + response \<Rightarrow> bool" where
  "accepted r =
     (case r of
        Inl _ \<Rightarrow> False
      | Inr resp \<Rightarrow>
          status_code resp = 200
          \<and> (case body_status resp of Inl _ \<Rightarrow> False | Inr st \<Rightarrow> py_eq_int st 0))"

definition retryable :: "exn + response \<Rightarrow> bool" where
  "retryable r =
     (case r of Inl e \<Rightarrow> is_Timeout e | Inr resp \<Rightarrow> status_code resp \<noteq> 200)"

text \<open>Outcomes of a verification poll.\<close>

definition reports_count_1 :: "exn + response \<Rightarrow> bool" where
  "reports_count_1 r =
     (case r of
        Inl _ \<Rightarrow> False
      | Inr resp \<Rightarrow> status_code resp = 200 \<and> total_subtasks_is_1 resp = Inr True)"

definition reports_other_count :: "exn + response \<Rightarrow> bool" where
  "reports_other_count r =
     (case r of
        Inl _ \<Rightarrow> False
      | Inr resp \<Rightarrow> status_code resp = 200 \<and> total_subtasks_is_1 resp = Inr False)"


text \<open>
  A verification miss: another count, an HTTP status other than 200, a timeout or any
  other request exception.
\<close>

definition poll_miss :: "exn + response \<Rightarrow> bool" where
  "poll_miss r =
     (case r of
        Inl e \<Rightarrow> is_RequestException e
      | Inr resp \<Rightarrow>
          status_code resp \<noteq> 200
          \<or> (case total_subtasks_is_1 resp of
                Inl e \<Rightarrow> is_RequestException e
              | Inr one \<Rightarrow> \<not> one))"


text \<open>The notification attempts among the effects.\<close>

definition notifications :: "event list \<Rightarrow> event list" where
  "notifications evs =
     filter (\<lambda>ev. case ev of Post TeamsCall _ \<Rightarrow> True | Post GoogleChatCall _ \<Rightarrow> True
                   | _ \<Rightarrow> False) evs"

text \<open>The call sites of the HTTP calls among the effects, in order.\<close>

definition sites :: "event list \<Rightarrow> site list" where
  "sites evs = concat (map (\<lambda>ev. case ev of Post st _ \<Rightarrow> [st] | _ \<Rightarrow> []) evs)"


section \<open>A ticket and its platform, for concrete runs\<close>

text \<open>
  A ticket with three subtasks as the inbound payload gives it, the secrets it needs,
  and platforms that answer the successive HTTP calls from a script; past the end of the
  script the connection is refused.
\<close>

definition reply :: "int \<Rightarrow> string \<Rightarrow> json \<Rightarrow> exn + response" where
  "reply code txt j = Inr \<lparr>status_code = code, body_text = txt, json_result = Inr j\<rparr>"

definition script :: "(exn + response) list \<Rightarrow> nat \<Rightarrow> request \<Rightarrow> exn + response" where
  "script answers n req =
     (if n < length answers then answers ! n
      else Inl (Exn RequestError ''connection refused''))"

definition subtask_of :: "int \<Rightarrow> json" where
  "subtask_of n =
     JObj [(''subtask_id'', JInt n), (''task_id'', JInt 7), (''title'', JStr ''Erase'')]"

definition ex_headers :: json where
  "ex_headers =
     JObj [(''X-API-KEY'', JStr ''key''), (''X-API-SECRET'', JStr ''secret''),
           (''X-TIDENT'', JStr ''tenant'')]"

definition ex_channels :: json where
  "ex_channels =
     JObj [(''googleChat'', JStr ''https://chat.example/hook''),
           (''microsoftTeams'', JStr ''https://teams.example/hook'')]"

definition ex_text :: string where
  "ex_text =
     ''{'ticketId': 1001, 'sm': 'dpo/{type}/uat/', 'task_subtask': ''
     @ ''[{'subtask_id': 11, 'task_id': 7, 'title': 'Erase'}, ''
     @ ''{'subtask_id': 12, 'task_id': 7, 'title': 'Erase'}, ''
     @ ''{'subtask_id': 13, 'task_id': 7, 'title': 'Erase'}]}''"

definition ex_payload :: json where
  "ex_payload =
     JObj [(''ticketId'', JInt 1001),
           (''sm'', JStr ''dpo/{type}/uat/''),
           (''task_subtask'', JArr [subtask_of 11, subtask_of 12, subtask_of 13])]"

definition ex_event :: json where
  "ex_event = JObj [(''data'', JStr ex_text)]"


definition world :: "(nat \<Rightarrow> request \<Rightarrow> exn + response) \<Rightarrow> env" where
  "world net =
     \<lparr>RETRIES = 3, TIMEOUT = 30, lambda_name = ''default_lambda'',
      json_loads = (\<lambda>txt. if txt = py_replace [CHR 0x27] [CHR 0x22] ex_text
                           then Inr ex_payload
                           else Inl ''Expecting property name enclosed in double quotes''),
      secret_value = (\<lambda>path. if path = ''dpo/global/uat/channel'' then Inr ex_channels
                             else if path = ''dpo/dsr/uat/token'' then Inr ex_headers
                             else Inl (Exn ClientError ''ResourceNotFoundException'')),
      http_post = net,
      py_repr = (\<lambda>j. ''{...}''),
      format_teams_notification =
        (\<lambda>entry. JObj [(''type'', JStr ''message''), (''attachments'', JArr [entry])]),
      format_google_chat_notification = (\<lambda>entry. JObj [(''cards'', JArr [entry])])\<rparr>"



text \<open>A fresh process: both globals are the empty dict of the module.\<close>

definition fresh :: state where
  "fresh = \<lparr>data_dsr = JObj [], data_subtask = JObj [], calls = 0, trace = []\<rparr>"

text \<open>The state in which the resolver meets the first subtask of the ticket.\<close>

definition ex_state :: state where
  "ex_state =
     \<lparr>data_dsr = JObj [(''ticketId'', JInt 1001),
                       (''sm'', JStr ''dpo/{type}/uat/''),
                       (''task_subtask'', JArr [subtask_of 11, subtask_of 12, subtask_of 13]),
                       (''lambda_name'', JStr ''default_lambda''),
                       (''enviroment'', JStr ''UAT''),
                       (''googleChat'', JStr ''https://chat.example/hook''),
                       (''microsoftTeams'', JStr ''https://teams.example/hook''),
                       (''secrets_header'', ex_headers)],
      data_subtask = subtask_of 11, calls = 0, trace = []\<rparr>"

text \<open>Answers of the update endpoint.\<close>

definition update_ok :: "exn + response" where
  "update_ok = reply 200 ''{status: 0}'' (JObj [(''status'', JInt 0)])"

definition update_created :: "int \<Rightarrow> exn + response" where
  "update_created st = reply 201 ''created'' (JObj [(''status'', JInt st)])"

definition update_refused :: "int \<Rightarrow> exn + response" where
  "update_refused st = reply 200 ''refused'' (JObj [(''status'', JInt st)])"

text \<open>Answers of the query endpoint: a first data row with the given count.\<close>

definition count_is :: "int \<Rightarrow> exn + response" where
  "count_is n =
     reply 200 ''rows''
       (JObj [(''data'', JArr [JObj [(''task_id'', JInt 7), (''total_subtasks'', JInt n)]])])"

text \<open>Answers of the query endpoint with the given data rows.\<close>

definition counted :: "int \<Rightarrow> json" where
  "counted n = JObj [(''task_id'', JInt 7), (''total_subtasks'', JInt n)]"

definition rows_answer :: "json list \<Rightarrow> exn + response" where
  "rows_answer rows = reply 200 ''rows'' (JObj [(''data'', JArr rows)])"

definition timed_out :: "exn + response" where
  "timed_out = Inl (Exn Timeout ''Read timed out.'')"

definition connection_error :: "exn + response" where
  "connection_error = Inl (Exn RequestError ''Connection aborted.'')"

text \<open>The requests the resolver makes for the first subtask of the ticket.\<close>

definition ex_update :: "env \<Rightarrow> request" where
  "ex_update env = update_request env (update_url env (JInt 11)) ex_headers"

definition ex_query :: "env \<Rightarrow> request" where
  "ex_query env = query_request env ex_headers (JInt 1001) (JInt 7)"

text \<open>A platform that answers by endpoint: one answer to every update call, one to
  every verification poll.\<close>

definition by_url :: "(exn + response) \<Rightarrow> (exn + response) \<Rightarrow> nat \<Rightarrow> request \<Rightarrow> exn + response" where
  "by_url update_answer query_answer n req =
     (if url req = JStr (GLOBAL_SECURITI_URL @ ''/reporting/v1/sources/query'')
      then query_answer else update_answer)"

text \<open>Worlds for the runs of the resolver.\<close>

definition exhausted_world :: env where
  "exhausted_world = world (script [timed_out, update_ok, count_is 2, count_is 0, count_is 3])"

definition created_world :: "int \<Rightarrow> int \<Rightarrow> env" where
  "created_world st n = world (by_url (update_created st) (count_is n))"

definition removed_world :: env where
  "removed_world = world (script [update_ok, count_is 1])"

definition rejected_world :: env where
  "rejected_world = world (script [update_refused 7])"

definition timeouts_world :: env where
  "timeouts_world = world (script [timed_out, timed_out, timed_out])"

definition broken_world :: env where
  "broken_world = world (script [timed_out, connection_error])"





definition teams_down_world :: env where
  "teams_down_world = world (script [update_refused 7, connection_error])"

definition chat_down_world :: env where
  "chat_down_world =
     world (script [update_refused 7, reply 202 ''1'' (JInt 1), connection_error])"

definition webhooks_refuse_world :: env where
  "webhooks_refuse_world =
     world (script [update_refused 7, reply 500 ''error'' JNull, reply 404 ''gone'' JNull])"




section \<open>Symbolic execution\<close>

text \<open>
  In a loggable state \<open>log_event\<close> appends one log line and nothing else; the
  lemmas below run the statements of the resolver on a state that is \<open>ready\<close>.
\<close>

lemma loggable_upd [simp]:
  "loggable (s\<lparr>trace := t\<rparr>) = loggable s"
  "loggable (s\<lparr>calls := c\<rparr>) = loggable s"
  by (simp_all add: loggable_def)

lemma create_log_entry_ok:
  "loggable s \<Longrightarrow>
   create_log_entry (data_dsr s) (data_subtask s) ev st m kw = Inr (log_entry_of s ev st m kw)"
  by (auto simp: loggable_def is_dict_def log_entry_of_def create_log_entry_def safe_get_def
        and_then_def split: json.splits)

lemma log_event_ok:
  "loggable s \<Longrightarrow> level = ''info'' \<or> level = ''warning'' \<or> level = ''error'' \<Longrightarrow>
   log_event level ev st m kw s
     = (Inr (), s\<lparr>trace := trace s @ [Log level (log_entry_of s ev st m kw)]\<rparr>)"
  by (auto simp: log_event_def create_log_entry_ok bnd_def lift_def emit_def)

lemma ready_loggable: "ready s h t k i \<Longrightarrow> loggable s"
  by (cases "data_dsr s"; cases "data_subtask s") (auto simp: ready_def loggable_def is_dict_def)

lemma reaches_refl: "reaches s 0 [] s"
  by (simp add: reaches_def)

lemma reaches_trans:
  "reaches s n es s' \<Longrightarrow> reaches s' m fs s'' \<Longrightarrow> reaches s (n + m) (es @ fs) s''"
  by (simp add: reaches_def)

lemma reaches_ready: "reaches s n es s' \<Longrightarrow> ready s' h t k i = ready s h t k i"
  by (simp add: reaches_def ready_def)

lemma reaches_log:
  "reaches s n es s' \<Longrightarrow> reaches s n es (s'\<lparr>trace := trace s' @ [Log l j]\<rparr>)"
  by (simp add: reaches_def effects_def)

lemmas exec = bnd_def lift_def return_def raise_def catch_def emit_def dsr_item_def
  subtask_item_def requests_post_def time_sleep_def log_event_ok

lemma wsr_count_1:
  assumes "ready s h t k i"
    and "reports_count_1 (http_post env (calls s) (query_request env h t k))"
  shows "\<exists>s'. was_subtask_removed env h s = (Inr (True, []), s')
           \<and> reaches s 1 [Post QueryCall (query_request env h t k)] s'"
  using assms ready_loggable[OF assms(1)]
  by (auto simp: was_subtask_removed_def reports_count_1_def ready_def exec reaches_def effects_def split: sum.splits)

lemma wsr_miss:
  assumes "ready s h t k i"
    and "poll_miss (http_post env (calls s) (query_request env h t k))"
  shows "\<exists>d s'. was_subtask_removed env h s = (Inr (False, d), s')
           \<and> reaches s 1 [Post QueryCall (query_request env h t k)] s'"
  using assms ready_loggable[OF assms(1)]
  by (auto simp: was_subtask_removed_def poll_miss_def ready_def exec reaches_def effects_def
       total_subtasks_is_1_def and_then_def is_Timeout_def is_RequestException_def split: sum.splits)

lemma check_body_hit:
  assumes "ready s h t k i"
    and "reports_count_1 (http_post env (calls s) (query_request env h t k))"
  shows "\<exists>s'. check_body env a err s = (Inr (Inl (True, [])), s')
           \<and> reaches s 1 [Post QueryCall (query_request env h t k)] s'"
proof -
  from wsr_count_1[OF assms] obtain s1 where
    w: "was_subtask_removed env h s = (Inr (True, []), s1)"
    and r: "reaches s 1 [Post QueryCall (query_request env h t k)] s1" by blast
  have l: "loggable s1" using r assms(1) reaches_ready ready_loggable by blast
  have h: "getitem_key (data_dsr s) ''secrets_header'' = Inr h" using assms(1) by (simp add: ready_def)
  show ?thesis using w l h reaches_log[OF r]
    by (simp add: check_body_def exec)
qed

lemma check_body_miss:
  assumes "ready s h t k i"
    and "poll_miss (http_post env (calls s) (query_request env h t k))"
  shows "\<exists>d s'. check_body env a err s = (Inr (Inr d), s')
           \<and> reaches s 1 [Post QueryCall (query_request env h t k), Sleep 5] s'"
proof -
  from wsr_miss[OF assms] obtain d s1 where
    w: "was_subtask_removed env h s = (Inr (False, d), s1)"
    and r: "reaches s 1 [Post QueryCall (query_request env h t k)] s1" by blast
  have l: "loggable s1" using r assms(1) reaches_ready ready_loggable by blast
  have h: "getitem_key (data_dsr s) ''secrets_header'' = Inr h" using assms(1) by (simp add: ready_def)
  show ?thesis using w l h r
    by (simp add: check_body_def exec reaches_def effects_def)
qed

lemma check_loop_all_miss:
  assumes "ready s h t k i"
    and "\<forall>n < length xs. poll_miss (http_post env (calls s + n) (query_request env h t k))"
  shows "\<exists>d s'. for_each xs (check_body env) err s = (Inr (Inr d), s')
           \<and> reaches s (length xs)
                (concat (replicate (length xs) [Post QueryCall (query_request env h t k), Sleep 5])) s'"
  using assms
proof (induction xs arbitrary: s err)
  case Nil
  then show ?case by (simp add: return_def reaches_refl)
next
  case (Cons x xs)
  let ?q = "query_request env h t k"
  from Cons.prems(2) have "poll_miss (http_post env (calls s) ?q)" by force
  from check_body_miss[OF Cons.prems(1) this] obtain d s1 where
    b: "check_body env x err s = (Inr (Inr d), s1)"
    and r: "reaches s 1 [Post QueryCall ?q, Sleep 5] s1" by blast
  have rd: "ready s1 h t k i" using r Cons.prems(1) reaches_ready by blast
  have c: "calls s1 = calls s + 1" using r by (simp add: reaches_def)
  have "\<forall>n < length xs. poll_miss (http_post env (calls s1 + n) ?q)"
    using Cons.prems(2) c by fastforce
  from Cons.IH[OF rd this] obtain d' s2 where
    f: "for_each xs (check_body env) d s1 = (Inr (Inr d'), s2)"
    and r2: "reaches s1 (length xs) (concat (replicate (length xs) [Post QueryCall ?q, Sleep 5])) s2"
    by blast
  have "for_each (x # xs) (check_body env) err s = (Inr (Inr d'), s2)"
    using b f by (simp add: bnd_def)
  moreover have "reaches s (length (x # xs))
      (concat (replicate (length (x # xs)) [Post QueryCall ?q, Sleep 5])) s2"
    using reaches_trans[OF r r2] by simp
  ultimately show ?case by blast
qed

lemma for_each_append:
  "for_each (xs @ ys) f v s =
     (case for_each xs f v s of
        (Inr (Inr v'), s') \<Rightarrow> for_each ys f v' s'
      | (Inr (Inl r), s') \<Rightarrow> (Inr (Inl r), s')
      | (Inl e, s') \<Rightarrow> (Inl e, s'))"
proof (induction xs arbitrary: v s)
  case Nil
  then show ?case by (simp add: return_def)
next
  case (Cons x xs)
  show ?case
    by (simp add: bnd_def return_def Cons.IH split: prod.splits sum.splits)
qed

lemma attempt_retryable:
  assumes "ready s h t k i"
    and "retryable (http_post env (calls s) (update_request env u h))"
  shows "\<exists>err' s'. update_attempt env u a err s = (Inr (Inr err'), s')
           \<and> reaches s 1 [Post UpdateCall (update_request env u h)] s'"
  using assms ready_loggable[OF assms(1)]
  by (auto simp: update_attempt_def retryable_def ready_def exec reaches_def effects_def
        split: sum.splits)

lemma attempt_exception:
  assumes "ready s h t k i"
    and "http_post env (calls s) (update_request env u h) = Inl e"
    and "is_RequestException e" and "\<not> is_Timeout e"
  shows "\<exists>s'. update_attempt env u a err s = (Inr (Inl (False, msg e)), s')
           \<and> reaches s 1 [Post UpdateCall (update_request env u h)] s'"
  using assms ready_loggable[OF assms(1)]
  by (auto simp: update_attempt_def ready_def exec reaches_def effects_def)

lemma attempt_rejected:
  assumes "ready s h t k i"
    and "http_post env (calls s) (update_request env u h) = Inr resp"
    and "status_code resp = 200" and "body_status resp = Inr st" and "\<not> py_eq_int st 0"
  shows "\<exists>s'. update_attempt env u a err s
             = (Inr (Inl (False, ''API returned unexpected status: '' @ py_str env st)), s')
           \<and> reaches s 1 [Post UpdateCall (update_request env u h)] s'"
  using assms ready_loggable[OF assms(1)]
  by (auto simp: update_attempt_def ready_def exec reaches_def effects_def)

lemma log_entry_of_upd [simp]:
  "log_entry_of (s\<lparr>trace := tr\<rparr>) = log_entry_of s"
  "log_entry_of (s\<lparr>calls := c\<rparr>) = log_entry_of s"
  by (simp_all add: log_entry_of_def fun_eq_iff)

lemma attempt_accepted:
  assumes "ready s h t k i"
    and "accepted (http_post env (calls s) (update_request env u h))"
  shows "\<exists>s1. reaches s 1 [Post UpdateCall (update_request env u h)] s1
           \<and> (\<forall>res s2. for_each (py_range (RETRIES env)) (check_body env) err s1 = (Inr res, s2)
                 \<longrightarrow> loggable s2
                 \<longrightarrow> (\<exists>s3. reaches s2 0 [] s3 \<and> update_attempt env u a err s
                      = (Inr (Inl (case res of Inl ret \<Rightarrow> ret
                            | Inr _ \<Rightarrow> (False, ''Subtask not removed after retries.''))), s3)))"
proof -
  let ?upd = "update_request env u h"
  obtain resp st where r: "http_post env (calls s) ?upd = Inr resp" "status_code resp = 200"
      "body_status resp = Inr st" "py_eq_int st 0"
    using assms(2) by (auto simp: accepted_def split: sum.splits)
  define s1 where "s1 = s\<lparr>calls := Suc (calls s), trace := trace s @
     [Log ''info'' (log_entry_of s ''update_subtask'' ''started'' (''attempt: '' @ str_int (a + 1)) []),
      Post UpdateCall ?upd,
      Log ''info'' (log_entry_of s ''subtask_update'' ''started'' ''Process started'' [])]\<rparr>"
  have l: "loggable s" by (rule ready_loggable[OF assms(1)])
  have h: "getitem_key (data_dsr s) ''secrets_header'' = Inr h"
    using assms(1) by (simp add: ready_def)
  have r1: "reaches s 1 [Post UpdateCall ?upd] s1"
    by (simp add: s1_def reaches_def effects_def)
  have "\<exists>s3. reaches s2 0 [] s3 \<and> update_attempt env u a err s
          = (Inr (Inl (case res of Inl ret \<Rightarrow> ret
                | Inr _ \<Rightarrow> (False, ''Subtask not removed after retries.''))), s3)"
    if "for_each (py_range (RETRIES env)) (check_body env) err s1 = (Inr res, s2)"
      and "loggable s2" for res s2
    using that r l h unfolding s1_def
    by (cases res) (simp_all add: update_attempt_def exec reaches_def effects_def)
  with r1 show ?thesis by blast
qed


lemma update_loop_retryable:
  assumes "ready s h t k i"
    and "\<forall>n < length xs. retryable (http_post env (calls s + n) (update_request env u h))"
  shows "\<exists>err' s'. for_each xs (update_attempt env u) err s = (Inr (Inr err'), s')
           \<and> reaches s (length xs) (replicate (length xs) (Post UpdateCall (update_request env u h))) s'"
  using assms
proof (induction xs arbitrary: s err)
  case Nil
  then show ?case by (simp add: return_def reaches_refl)
next
  case (Cons x xs)
  let ?upd = "update_request env u h"
  from Cons.prems(2) have "retryable (http_post env (calls s) ?upd)" by force
  from attempt_retryable[OF Cons.prems(1) this] obtain e1 s1 where
    b: "update_attempt env u x err s = (Inr (Inr e1), s1)"
    and r: "reaches s 1 [Post UpdateCall ?upd] s1" by blast
  have rd: "ready s1 h t k i" using r Cons.prems(1) reaches_ready by blast
  have c: "calls s1 = calls s + 1" using r by (simp add: reaches_def)
  have "\<forall>n < length xs. retryable (http_post env (calls s1 + n) ?upd)"
    using Cons.prems(2) c by fastforce
  from Cons.IH[OF rd this] obtain e2 s2 where
    f: "for_each xs (update_attempt env u) e1 s1 = (Inr (Inr e2), s2)"
    and r2: "reaches s1 (length xs) (replicate (length xs) (Post UpdateCall ?upd)) s2"
    by blast
  have "for_each (x # xs) (update_attempt env u) err s = (Inr (Inr e2), s2)"
    using b f by (simp add: bnd_def)
  moreover have "reaches s (length (x # xs)) (replicate (length (x # xs)) (Post UpdateCall ?upd)) s2"
    using reaches_trans[OF r r2] by simp
  ultimately show ?case by blast
qed

lemma py_range_split:
  "j < nat n \<Longrightarrow> py_range n = map int [0..<j] @ int j # map int [Suc j..<nat n]"
proof -
  assume "j < nat n"
  then have "[0..<nat n] = [0..<j] @ j # [Suc j..<nat n]"
    by (metis less_imp_le_nat upt_add_eq_append upt_conv_Cons le_add_diff_inverse zero_le)
  then show ?thesis by (simp add: py_range_def)
qed

lemma update_subtask_all_retryable:
  assumes "ready s h t k i"
    and "\<forall>n < nat (RETRIES env).
           retryable (http_post env (calls s + n) (update_request env (update_url env i) h))"
  shows "\<exists>err s'. update_subtask env s = (Inr (False, err), s')
           \<and> reaches s (nat (RETRIES env))
                (replicate (nat (RETRIES env))
                   (Post UpdateCall (update_request env (update_url env i) h))) s'"
proof -
  let ?u = "update_url env i"
  have len: "length (py_range (RETRIES env)) = nat (RETRIES env)" by (simp add: py_range_def)
  from update_loop_retryable[of s h t k i "py_range (RETRIES env)" env ?u "[]"] assms len
  obtain e1 s1 where
    f: "for_each (py_range (RETRIES env)) (update_attempt env ?u) [] s = (Inr (Inr e1), s1)"
    and r: "reaches s (nat (RETRIES env))
              (replicate (nat (RETRIES env)) (Post UpdateCall (update_request env ?u h))) s1"
    by auto
  have l: "loggable s1" using r assms(1) reaches_ready ready_loggable by blast
  have i: "getitem_key (data_subtask s) ''subtask_id'' = Inr i"
    using assms(1) by (simp add: ready_def)
  have "update_subtask env s = (Inr (False, e1),
          s1\<lparr>trace := trace s1 @ [Log ''error''
            (log_entry_of s1 ''subtask_update'' ''failure'' ''All retries failed.'' [])]\<rparr>)"
    using f l i by (simp add: update_subtask_def exec)
  with reaches_log[OF r] show ?thesis by blast
qed

lemma update_subtask_at:
  assumes "ready s h t k i"
    and "j < nat (RETRIES env)"
    and "\<forall>n < j. retryable (http_post env (calls s + n) (update_request env (update_url env i) h))"
  shows "\<exists>err s1. reaches s j (replicate j (Post UpdateCall (update_request env (update_url env i) h))) s1
           \<and> (\<forall>ret s2. update_attempt env (update_url env i) (int j) err s1 = (Inr (Inl ret), s2)
                 \<longrightarrow> update_subtask env s = (Inr ret, s2))"
proof -
  let ?u = "update_url env i"
  let ?pre = "map int [0..<j]"
  have len: "length ?pre = j" by simp
  from update_loop_retryable[of s h t k i ?pre env ?u "[]"] assms(1,3) len
  obtain e1 s1 where
    f: "for_each ?pre (update_attempt env ?u) [] s = (Inr (Inr e1), s1)"
    and r: "reaches s j (replicate j (Post UpdateCall (update_request env ?u h))) s1"
    by auto
  have i: "getitem_key (data_subtask s) ''subtask_id'' = Inr i"
    using assms(1) by (simp add: ready_def)
  have "update_subtask env s = (Inr ret, s2)"
    if "update_attempt env ?u (int j) e1 s1 = (Inr (Inl ret), s2)" for ret s2
    using that f i
    by (simp add: update_subtask_def py_range_split[OF assms(2)] for_each_append bnd_def
          subtask_item_def return_def)
  with r show ?thesis by blast
qed

lemma check_loop_removed:
  assumes "ready s h t k i"
    and "j < length xs"
    and "\<forall>n < j. poll_miss (http_post env (calls s + n) (query_request env h t k))"
    and "reports_count_1 (http_post env (calls s + j) (query_request env h t k))"
  shows "\<exists>s'. for_each xs (check_body env) err s = (Inr (Inl (True, [])), s')
           \<and> reaches s (Suc j)
                (concat (replicate j [Post QueryCall (query_request env h t k), Sleep 5])
                   @ [Post QueryCall (query_request env h t k)]) s'"
proof -
  let ?q = "query_request env h t k"
  have xs: "xs = take j xs @ xs ! j # drop (Suc j) xs"
    using assms(2) by (simp add: id_take_nth_drop)
  have len: "length (take j xs) = j" using assms(2) by simp
  from check_loop_all_miss[of s h t k i "take j xs" env err] assms(1,3) len
  obtain d s1 where
    f: "for_each (take j xs) (check_body env) err s = (Inr (Inr d), s1)"
    and r: "reaches s j (concat (replicate j [Post QueryCall ?q, Sleep 5])) s1"
    by auto
  have rd: "ready s1 h t k i" using r assms(1) reaches_ready by blast
  have c: "calls s1 = calls s + j" using r by (simp add: reaches_def)
  from check_body_hit[OF rd, of env "xs ! j" d] assms(4) c
  obtain s2 where
    b: "check_body env (xs ! j) d s1 = (Inr (Inl (True, [])), s2)"
    and r2: "reaches s1 1 [Post QueryCall ?q] s2" by auto
  have "for_each (take j xs @ xs ! j # drop (Suc j) xs) (check_body env) err s
          = (Inr (Inl (True, [])), s2)"
    using f b by (simp add: for_each_append bnd_def return_def)
  with xs have "for_each xs (check_body env) err s = (Inr (Inl (True, [])), s2)" by simp
  moreover have "reaches s (Suc j) (concat (replicate j [Post QueryCall ?q, Sleep 5])
                   @ [Post QueryCall ?q]) s2"
    using reaches_trans[OF r r2] by simp
  ultimately show ?thesis by blast
qed

lemma attempt_removed:
  assumes "ready s h t k i"
    and "accepted (http_post env (calls s) (update_request env u h))"
    and "j < nat (RETRIES env)"
    and "\<forall>n < j. poll_miss (http_post env (calls s + 1 + n) (query_request env h t k))"
    and "reports_count_1 (http_post env (calls s + 1 + j) (query_request env h t k))"
  shows "\<exists>s'. update_attempt env u a err s = (Inr (Inl (True, [])), s')
           \<and> reaches s (j + 2)
                (Post UpdateCall (update_request env u h)
                   # concat (replicate j [Post QueryCall (query_request env h t k), Sleep 5])
                   @ [Post QueryCall (query_request env h t k)]) s'"
proof -
  let ?q = "query_request env h t k"
  let ?upd = "update_request env u h"
  from attempt_accepted[OF assms(1,2), where a=a and err=err] obtain s1 where
    r1: "reaches s 1 [Post UpdateCall ?upd] s1"
    and k: "\<And>res s2. for_each (py_range (RETRIES env)) (check_body env) err s1 = (Inr res, s2)
              \<Longrightarrow> loggable s2
              \<Longrightarrow> \<exists>s3. reaches s2 0 [] s3 \<and> update_attempt env u a err s
                      = (Inr (Inl (case res of Inl ret \<Rightarrow> ret
                            | Inr _ \<Rightarrow> (False, ''Subtask not removed after retries.''))), s3)"
    by blast
  have rd: "ready s1 h t k i" using r1 assms(1) reaches_ready by blast
  have c: "calls s1 = calls s + 1" using r1 by (simp add: reaches_def)
  have len: "j < length (py_range (RETRIES env))" using assms(3) by (simp add: py_range_def)
  from check_loop_removed[OF rd len, of env err] assms(4,5) c
  obtain s2 where
    f: "for_each (py_range (RETRIES env)) (check_body env) err s1 = (Inr (Inl (True, [])), s2)"
    and r2: "reaches s1 (Suc j) (concat (replicate j [Post QueryCall ?q, Sleep 5])
                @ [Post QueryCall ?q]) s2" by auto
  have l2: "loggable s2" using r2 rd reaches_ready ready_loggable by blast
  from k[OF f l2] obtain s3 where
    r3: "reaches s2 0 [] s3"
    and u: "update_attempt env u a err s = (Inr (Inl (True, [])), s3)" by auto
  have "reaches s (j + 2) (Post UpdateCall ?upd
          # concat (replicate j [Post QueryCall ?q, Sleep 5]) @ [Post QueryCall ?q]) s3"
    using reaches_trans[OF reaches_trans[OF r1 r2] r3] by simp
  with u show ?thesis by blast
qed

lemma attempt_exhausted:
  assumes "ready s h t k i"
    and "accepted (http_post env (calls s) (update_request env u h))"
    and "\<forall>n < nat (RETRIES env).
           poll_miss (http_post env (calls s + 1 + n) (query_request env h t k))"
  shows "\<exists>s'. update_attempt env u a err s
             = (Inr (Inl (False, ''Subtask not removed after retries.'')), s')
           \<and> reaches s (1 + nat (RETRIES env))
                (Post UpdateCall (update_request env u h)
                   # concat (replicate (nat (RETRIES env))
                       [Post QueryCall (query_request env h t k), Sleep 5])) s'"
proof -
  let ?q = "query_request env h t k"
  let ?upd = "update_request env u h"
  let ?R = "nat (RETRIES env)"
  from attempt_accepted[OF assms(1,2), where a=a and err=err] obtain s1 where
    r1: "reaches s 1 [Post UpdateCall ?upd] s1"
    and k: "\<And>res s2. for_each (py_range (RETRIES env)) (check_body env) err s1 = (Inr res, s2)
              \<Longrightarrow> loggable s2
              \<Longrightarrow> \<exists>s3. reaches s2 0 [] s3 \<and> update_attempt env u a err s
                      = (Inr (Inl (case res of Inl ret \<Rightarrow> ret
                            | Inr _ \<Rightarrow> (False, ''Subtask not removed after retries.''))), s3)"
    by blast
  have rd: "ready s1 h t k i" using r1 assms(1) reaches_ready by blast
  have c: "calls s1 = calls s + 1" using r1 by (simp add: reaches_def)
  have len: "length (py_range (RETRIES env)) = ?R" by (simp add: py_range_def)
  from check_loop_all_miss[OF rd, of "py_range (RETRIES env)" env err] assms(3) c len
  obtain d s2 where
    f: "for_each (py_range (RETRIES env)) (check_body env) err s1 = (Inr (Inr d), s2)"
    and r2: "reaches s1 ?R (concat (replicate ?R [Post QueryCall ?q, Sleep 5])) s2" by auto
  have l2: "loggable s2" using r2 rd reaches_ready ready_loggable by blast
  from k[OF f l2] obtain s3 where
    r3: "reaches s2 0 [] s3"
    and u: "update_attempt env u a err s
              = (Inr (Inl (False, ''Subtask not removed after retries.'')), s3)" by auto
  have "reaches s (1 + ?R) (Post UpdateCall ?upd
          # concat (replicate ?R [Post QueryCall ?q, Sleep 5])) s3"
    using reaches_trans[OF reaches_trans[OF r1 r2] r3] by simp
  with u show ?thesis by blast
qed

lemma other_count_miss: "reports_other_count r \<Longrightarrow> poll_miss r"
  by (auto simp: reports_other_count_def poll_miss_def split: sum.splits)


lemma all_less_3: "(\<forall>n<3::nat. P n) = (P 0 \<and> P 1 \<and> P 2)"
  by (auto simp: numeral_3_eq_3 numeral_2_eq_2 less_Suc_eq)

lemmas ex_defs = world_def script_def by_url_def reply_def ex_state_def subtask_of_def
  update_ok_def update_created_def update_refused_def count_is_def timed_out_def
  connection_error_def ex_update_def ex_query_def

lemmas outcome_defs = accepted_def retryable_def reports_count_1_def reports_other_count_def
  poll_miss_def body_status_def total_subtasks_is_1_def and_then_def is_Timeout_def
  is_RequestException_def norm_index_def

lemma ex_ready: "ready ex_state ex_headers (JInt 1001) (JInt 7) (JInt 11)"
  by (simp add: ready_def ex_defs)

lemma ex_state_simps: "calls ex_state = 0" "trace ex_state = []"
  by (simp_all add: ex_state_def)


lemma dict_items_loggable:
  "getitem_key (data_dsr s) a = Inr x \<Longrightarrow> getitem_key (data_subtask s) b = Inr y \<Longrightarrow> loggable s"
  by (cases "data_dsr s"; cases "data_subtask s") (auto simp: loggable_def is_dict_def)

section \<open>Frame of the resolver and runs of the orchestrator\<close>

























lemma send_teams_response:
  assumes "loggable s"
    and "getitem_key (data_dsr s) ''microsoftTeams'' = Inr u"
    and "http_post env (calls s) (teams_request env u m) = Inr resp"
  shows "\<exists>s'. send_teams_notification env m s = (Inr (), s')
           \<and> reaches s 1 [Post TeamsCall (teams_request env u m)] s'"
  using assms
  by (simp add: send_teams_notification_def exec reaches_def effects_def)

lemma send_teams_raises:
  assumes "getitem_key (data_dsr s) ''microsoftTeams'' = Inr u"
    and "http_post env (calls s) (teams_request env u m) = Inl e"
  shows "\<exists>s'. send_teams_notification env m s = (Inl e, s')
           \<and> reaches s 1 [Post TeamsCall (teams_request env u m)] s'"
  using assms
  by (simp add: send_teams_notification_def exec reaches_def effects_def)

lemma send_google_chat_response:
  assumes "loggable s"
    and "getitem_key (data_dsr s) ''googleChat'' = Inr u"
    and "http_post env (calls s) (google_chat_request env u m) = Inr resp"
  shows "\<exists>s'. send_google_chat_notification env m s = (Inr (), s')
           \<and> reaches s 1 [Post GoogleChatCall (google_chat_request env u m)] s'"
  using assms
  by (simp add: send_google_chat_notification_def exec reaches_def effects_def)

lemma send_google_chat_raises:
  assumes "getitem_key (data_dsr s) ''googleChat'' = Inr u"
    and "http_post env (calls s) (google_chat_request env u m) = Inl e"
  shows "\<exists>s'. send_google_chat_notification env m s = (Inl e, s')
           \<and> reaches s 1 [Post GoogleChatCall (google_chat_request env u m)] s'"
  using assms
  by (simp add: send_google_chat_notification_def exec reaches_def effects_def)








lemma ex_ticket:
  "getitem_key (data_dsr ex_state) ''task_subtask''
     = Inr (JArr ([subtask_of 11] @ subtask_of 12 # [subtask_of 13]))"
  "getitem_key (data_dsr ex_state) ''microsoftTeams'' = Inr (JStr ''https://teams.example/hook'')"
  "getitem_key (data_dsr ex_state) ''googleChat'' = Inr (JStr ''https://chat.example/hook'')"
  by (simp_all add: ex_state_def)

section \<open>Runs of the entry point\<close>





lemma loggable_set_dsr [simp]:
  "loggable (s\<lparr>data_dsr := JObj kvs\<rparr>) = (data_subtask s = JNull \<or> is_dict (data_subtask s))"
  by (simp add: loggable_def is_dict_def)






section \<open>Exceptions that no handler matches\<close>














section \<open>Outcomes of the orchestrator\<close>



section \<open>Classification of one verification poll\<close>

text \<open>
  The outcome of \<open>was_subtask_removed\<close> by the answer of its one HTTP call, and
  the answers for which its comparison of \<open>total_subtasks\<close> with 1 is true,
  written out on the body of the answer.
\<close>

lemma wsr_classification:
  fixes env s secrets t k
  defines "q \<equiv> query_request env secrets t k"
  defines "r \<equiv> http_post env (calls s) q"
  defines "W \<equiv> was_subtask_removed env secrets s"
  assumes "getitem_key (data_dsr s) ''ticketId'' = Inr t"
    and "getitem_key (data_subtask s) ''task_id'' = Inr k"
  shows "(fst W = Inr (True, []) \<longleftrightarrow> reports_count_1 r)
       \<and> (\<forall>resp. r = Inr resp \<and> status_code resp = 200 \<and> total_subtasks_is_1 resp = Inr False
             \<longrightarrow> fst W = Inr (False, body_text resp))
       \<and> (\<forall>resp. r = Inr resp \<and> status_code resp \<noteq> 200 \<longrightarrow> fst W = Inr (False, body_text resp))
       \<and> (\<forall>e. r = Inl e \<and> is_Timeout e \<longrightarrow> fst W = Inr (False, ''Processing timeout''))
       \<and> (\<forall>e. r = Inl e \<and> \<not> is_Timeout e \<and> is_RequestException e
             \<longrightarrow> fst W = Inr (False, msg e))
       \<and> calls (snd W) = calls s + 1
       \<and> effects (trace (snd W)) = effects (trace s) @ [Post QueryCall q]"
proof -
  have l: "loggable s" using assms(4,5) by (rule dict_items_loggable)
  show ?thesis
  proof (cases r)
    case (Inl e)
    then show ?thesis
      using assms(4,5) l unfolding W_def r_def q_def
      by (simp add: was_subtask_removed_def exec reports_count_1_def effects_def)
  next
    case (Inr resp)
    show ?thesis
    proof (cases "status_code resp = 200")
      case False
      with Inr show ?thesis
        using assms(4,5) l unfolding W_def r_def q_def
        by (simp add: was_subtask_removed_def exec reports_count_1_def effects_def)
    next
      case True
      show ?thesis
      proof (cases "total_subtasks_is_1 resp")
        case (Inl e)
        with True Inr show ?thesis
          using assms(4,5) l unfolding W_def r_def q_def
          by (simp add: was_subtask_removed_def exec reports_count_1_def effects_def)
      next
        case one: (Inr b)
        then obtain j where j: "json_result resp = Inr j"
          by (auto simp: total_subtasks_is_1_def and_then_def split: sum.splits)
        with one True Inr show ?thesis
          using assms(4,5) l unfolding W_def r_def q_def
          by (cases b) (simp_all add: was_subtask_removed_def exec reports_count_1_def effects_def)
      qed
    qed
  qed
qed

lemma total_is_1_iff:
  "total_subtasks_is_1 resp = Inr True \<longleftrightarrow>
     (\<exists>kvs cols rows n. json_result resp = Inr (JObj kvs)
        \<and> map_of kvs ''data'' = Some (JArr (JObj cols # rows))
        \<and> map_of cols ''total_subtasks'' = Some n
        \<and> (n = JInt 1 \<or> n = JBool True))"
proof
  assume t: "total_subtasks_is_1 resp = Inr True"
  then obtain j where j: "json_result resp = Inr j"
    by (auto simp: total_subtasks_is_1_def and_then_def split: sum.splits)
  with t obtain d where d: "getitem_key j ''data'' = Inr d"
    by (auto simp: total_subtasks_is_1_def and_then_def split: sum.splits)
  with t j obtain row where row: "getitem_idx d 0 = Inr row"
    by (auto simp: total_subtasks_is_1_def and_then_def split: sum.splits)
  with t j d obtain n where n: "dict_get row ''total_subtasks'' (JInt 0) = Inr n"
    and one: "py_eq_int n 1"
    by (auto simp: total_subtasks_is_1_def and_then_def split: sum.splits)
  from d obtain kvs where kvs: "j = JObj kvs" "map_of kvs ''data'' = Some d"
    by (cases j) (auto split: option.splits)
  from n obtain cols where cols: "row = JObj cols"
    by (cases row) auto
  from row cols obtain rows where rows: "d = JArr (JObj cols # rows)"
  proof (cases d)
    case (JArr xs)
    with row cols that show ?thesis
      by (cases xs) (auto simp: norm_index_def)
  next
    case (JStr str)
    with row cols show ?thesis
      by (auto simp: norm_index_def split: if_splits)
  qed auto
  from n cols one have "\<exists>m. map_of cols ''total_subtasks'' = Some m \<and> m = n"
    by (cases "map_of cols ''total_subtasks''") auto
  moreover from one have "n = JInt 1 \<or> n = JBool True"
    by (cases n) (auto split: if_splits)
  ultimately show "\<exists>kvs cols rows n. json_result resp = Inr (JObj kvs)
        \<and> map_of kvs ''data'' = Some (JArr (JObj cols # rows))
        \<and> map_of cols ''total_subtasks'' = Some n
        \<and> (n = JInt 1 \<or> n = JBool True)"
    using j kvs rows by auto
next
  assume "\<exists>kvs cols rows n. json_result resp = Inr (JObj kvs)
        \<and> map_of kvs ''data'' = Some (JArr (JObj cols # rows))
        \<and> map_of cols ''total_subtasks'' = Some n
        \<and> (n = JInt 1 \<or> n = JBool True)"
  then show "total_subtasks_is_1 resp = Inr True"
    by (auto simp: total_subtasks_is_1_def and_then_def norm_index_def)
qed

lemma total_not_1:
  assumes "json_result resp = Inr (JObj kvs)"
    and "map_of kvs ''data'' = Some (JArr (JObj cols # rows))"
    and "\<forall>n. map_of cols ''total_subtasks'' = Some n \<longrightarrow> n \<noteq> JInt 1 \<and> n \<noteq> JBool True"
  shows "total_subtasks_is_1 resp = Inr False"
proof (cases "map_of cols ''total_subtasks''")
  case None
  with assms(1,2) show ?thesis
    by (simp add: total_subtasks_is_1_def and_then_def norm_index_def)
next
  case (Some n)
  with assms(3) have "\<not> py_eq_int n 1" by (cases n) (auto split: if_splits)
  with Some assms(1,2) show ?thesis
    by (simp add: total_subtasks_is_1_def and_then_def norm_index_def)
qed

section \<open>The invocation up to the orchestrator\<close>



text \<open>
  An invocation whose first subtask is refused while the Teams webhook cannot be
  reached: the exception of the webhook call is the outcome of \<open>main\<close>.
\<close>

lemma main_webhook_failure_escapes:
  "fst (main teams_down_world ex_event ''ctx'' fresh)
     = Inl (Exn RequestError ''Connection aborted.'')"
  by code_simp

section \<open>Properties of the resolver\<close>

text \<open>
  Claim C1, with "accepted" read as the code reads it: the update call is answered with
  HTTP 200 and a body whose status equals 0. When the update request of a subtask is
  accepted at some attempt (the attempts before it, if any, having timed out or met a
  status other than 200) and every verification poll reports a count other than 1,
  \<open>update_subtask\<close> returns failure with the detail
  "Subtask not removed after retries." after exactly \<open>RETRIES\<close> polls, each followed
  by the 5-unit sleep, and makes no update call after the accepted one.
\<close>

theorem resolve_verification_exhausted:
  fixes env s h t k i
  defines "upd \<equiv> update_request env (update_url env i) h"
    and "q \<equiv> query_request env h t k"
  assumes "ready s h t k i"
    and "j < nat (RETRIES env)"
    and "\<forall>n < j. retryable (http_post env (calls s + n) upd)"
    and "accepted (http_post env (calls s + j) upd)"
    and "\<forall>n < nat (RETRIES env). reports_other_count (http_post env (calls s + j + 1 + n) q)"
  shows "\<exists>s'. update_subtask env s = (Inr (False, ''Subtask not removed after retries.''), s')
           \<and> calls s' = calls s + j + 1 + nat (RETRIES env)
           \<and> effects (trace s') = effects (trace s) @ replicate (Suc j) (Post UpdateCall upd)
                @ concat (replicate (nat (RETRIES env)) [Post QueryCall q, Sleep 5])"
proof -
  from update_subtask_at[OF assms(3,4)] assms(5) obtain err s1 where
    r1: "reaches s j (replicate j (Post UpdateCall upd)) s1"
    and fin: "\<And>ret s2. update_attempt env (update_url env i) (int j) err s1 = (Inr (Inl ret), s2)
                \<Longrightarrow> update_subtask env s = (Inr ret, s2)"
    unfolding upd_def by blast
  have rd: "ready s1 h t k i" using r1 assms(3) reaches_ready by blast
  have c: "calls s1 = calls s + j" using r1 by (simp add: reaches_def)
  have acc: "accepted (http_post env (calls s1) (update_request env (update_url env i) h))"
    using assms(6) c by (simp add: upd_def)
  have miss: "\<forall>n < nat (RETRIES env).
      poll_miss (http_post env (calls s1 + 1 + n) (query_request env h t k))"
    using assms(7) c other_count_miss by (simp add: q_def)
  from attempt_exhausted[OF rd acc miss, of "int j" err] obtain s2 where
    a: "update_attempt env (update_url env i) (int j) err s1
          = (Inr (Inl (False, ''Subtask not removed after retries.'')), s2)"
    and r2: "reaches s1 (1 + nat (RETRIES env)) (Post UpdateCall upd
                # concat (replicate (nat (RETRIES env)) [Post QueryCall q, Sleep 5])) s2"
    unfolding upd_def q_def by blast
  have "reaches s (j + (1 + nat (RETRIES env))) (replicate j (Post UpdateCall upd)
          @ Post UpdateCall upd
            # concat (replicate (nat (RETRIES env)) [Post QueryCall q, Sleep 5])) s2"
    by (rule reaches_trans[OF r1 r2])
  then have "calls s2 = calls s + j + 1 + nat (RETRIES env)"
    and "effects (trace s2) = effects (trace s) @ replicate (Suc j) (Post UpdateCall upd)
                @ concat (replicate (nat (RETRIES env)) [Post QueryCall q, Sleep 5])"
    by (simp_all add: reaches_def replicate_app_Cons_same)
  with fin[OF a] show ?thesis by blast
qed


theorem resolve_verification_exhausted_witness:
  "ready ex_state ex_headers (JInt 1001) (JInt 7) (JInt 11)
   \<and> retryable (http_post exhausted_world 0 (ex_update exhausted_world))
   \<and> accepted (http_post exhausted_world 1 (ex_update exhausted_world))
   \<and> reports_other_count (http_post exhausted_world 2 (ex_query exhausted_world))
   \<and> reports_other_count (http_post exhausted_world 3 (ex_query exhausted_world))
   \<and> reports_other_count (http_post exhausted_world 4 (ex_query exhausted_world))
   \<and> (\<exists>s'. update_subtask exhausted_world ex_state
              = (Inr (False, ''Subtask not removed after retries.''), s')
          \<and> calls s' = 5
          \<and> effects (trace s')
              = [Post UpdateCall (ex_update exhausted_world),
                 Post UpdateCall (ex_update exhausted_world),
                 Post QueryCall (ex_query exhausted_world), Sleep 5,
                 Post QueryCall (ex_query exhausted_world), Sleep 5,
                 Post QueryCall (ex_query exhausted_world), Sleep 5])"
proof -
  let ?W = exhausted_world
  have r: "ready ex_state ex_headers (JInt 1001) (JInt 7) (JInt 11)"
    by (simp add: ready_def ex_defs)
  have n: "nat (RETRIES ?W) = 3" "calls ex_state = 0" "trace ex_state = []"
    by (simp_all add: exhausted_world_def ex_defs)
  have a0: "retryable (http_post ?W 0 (ex_update ?W))"
    by (simp add: exhausted_world_def ex_defs outcome_defs)
  have a1: "accepted (http_post ?W 1 (ex_update ?W))"
    by (simp add: exhausted_world_def ex_defs outcome_defs)
  have p: "reports_other_count (http_post ?W 2 (ex_query ?W))"
    "reports_other_count (http_post ?W 3 (ex_query ?W))"
    "reports_other_count (http_post ?W 4 (ex_query ?W))"
    by (simp_all add: exhausted_world_def ex_defs outcome_defs)
  have h2: "1 < nat (RETRIES ?W)" using n by simp
  have h3: "\<forall>n < 1. retryable (http_post ?W (calls ex_state + n)
                (update_request ?W (update_url ?W (JInt 11)) ex_headers))"
    by (simp add: exhausted_world_def ex_defs outcome_defs)
  have h4: "accepted (http_post ?W (calls ex_state + 1)
                (update_request ?W (update_url ?W (JInt 11)) ex_headers))"
    by (simp add: exhausted_world_def ex_defs outcome_defs)
  have h5: "\<forall>n < nat (RETRIES ?W).
              reports_other_count (http_post ?W (calls ex_state + 1 + 1 + n)
                (query_request ?W ex_headers (JInt 1001) (JInt 7)))"
    unfolding n all_less_3 by (simp add: exhausted_world_def ex_defs outcome_defs)
  from resolve_verification_exhausted[OF r h2 h3 h4 h5] obtain s' where
    "update_subtask ?W ex_state = (Inr (False, ''Subtask not removed after retries.''), s')"
    "calls s' = calls ex_state + 1 + 1 + nat (RETRIES ?W)"
    "effects (trace s') = effects (trace ex_state)
       @ replicate (Suc 1) (Post UpdateCall (update_request ?W (update_url ?W (JInt 11)) ex_headers))
       @ concat (replicate (nat (RETRIES ?W))
           [Post QueryCall (query_request ?W ex_headers (JInt 1001) (JInt 7)), Sleep 5])"
    by blast
  then have "update_subtask ?W ex_state = (Inr (False, ''Subtask not removed after retries.''), s')
      \<and> calls s' = 5
      \<and> effects (trace s')
          = [Post UpdateCall (ex_update ?W), Post UpdateCall (ex_update ?W),
             Post QueryCall (ex_query ?W), Sleep 5,
             Post QueryCall (ex_query ?W), Sleep 5,
             Post QueryCall (ex_query ?W), Sleep 5]"
    unfolding n by (simp add: ex_update_def ex_query_def effects_def numeral_3_eq_3)
  with r a0 a1 p show ?thesis by blast
qed


text \<open>
  Claim C1 as stated counts every 2xx response with body status 0 as accepted. The code
  compares the status code with 200: an answer 201 with body status 0 is an HTTP error,
  the update is retried and no verification poll is made.
\<close>

theorem resolve_created_not_accepted:
  "http_post (created_world 0 2) 0 (ex_update (created_world 0 2))
     = reply 201 ''created'' (JObj [(''status'', JInt 0)])
   \<and> reports_other_count (http_post (created_world 0 2) 1 (ex_query (created_world 0 2)))
   \<and> fst (update_subtask (created_world 0 2) ex_state)
       = Inr (False, ''Error updating subtask. Status code: 201. Response: created'')
   \<and> effects (trace (snd (update_subtask (created_world 0 2) ex_state)))
       = [Post UpdateCall (ex_update (created_world 0 2)),
          Post UpdateCall (ex_update (created_world 0 2)),
          Post UpdateCall (ex_update (created_world 0 2))]"
  by code_simp




text \<open>
  Claim C3. When every update attempt times out or meets an HTTP status other than 200
  (every status that is not 2xx is one), \<open>update_subtask\<close> returns failure after
  exactly \<open>RETRIES\<close> attempts. When an attempt raises a request exception that is
  not a timeout, the attempts before it having been retried, \<open>update_subtask\<close>
  returns failure with the text of the exception as detail and makes no further
  attempt; raised by the first attempt, that is after exactly one attempt.
\<close>

theorem resolve_update_failures:
  fixes env s h t k i
  defines "upd \<equiv> update_request env (update_url env i) h"
  assumes "ready s h t k i"
  shows "((\<forall>n < nat (RETRIES env). retryable (http_post env (calls s + n) upd)) \<longrightarrow>
            (\<exists>err s'. update_subtask env s = (Inr (False, err), s')
               \<and> calls s' = calls s + nat (RETRIES env)
               \<and> effects (trace s')
                   = effects (trace s) @ replicate (nat (RETRIES env)) (Post UpdateCall upd)))
       \<and> (\<forall>j e. j < nat (RETRIES env)
              \<and> (\<forall>n < j. retryable (http_post env (calls s + n) upd))
              \<and> http_post env (calls s + j) upd = Inl e
              \<and> is_RequestException e \<and> \<not> is_Timeout e \<longrightarrow>
            (\<exists>s'. update_subtask env s = (Inr (False, msg e), s')
               \<and> calls s' = calls s + j + 1
               \<and> effects (trace s') = effects (trace s) @ replicate (Suc j) (Post UpdateCall upd)))"
proof (intro conjI impI allI)
  assume "\<forall>n < nat (RETRIES env). retryable (http_post env (calls s + n) upd)"
  from update_subtask_all_retryable[OF assms(2)] this
  show "\<exists>err s'. update_subtask env s = (Inr (False, err), s')
               \<and> calls s' = calls s + nat (RETRIES env)
               \<and> effects (trace s')
                   = effects (trace s) @ replicate (nat (RETRIES env)) (Post UpdateCall upd)"
    unfolding upd_def reaches_def by blast
next
  fix j e
  assume a: "j < nat (RETRIES env)
              \<and> (\<forall>n < j. retryable (http_post env (calls s + n) upd))
              \<and> http_post env (calls s + j) upd = Inl e
              \<and> is_RequestException e \<and> \<not> is_Timeout e"
  from update_subtask_at[OF assms(2), of j env] a obtain err s1 where
    r1: "reaches s j (replicate j (Post UpdateCall upd)) s1"
    and fin: "\<And>ret s2. update_attempt env (update_url env i) (int j) err s1 = (Inr (Inl ret), s2)
                \<Longrightarrow> update_subtask env s = (Inr ret, s2)"
    unfolding upd_def by blast
  have rd: "ready s1 h t k i" using r1 assms(2) reaches_ready by blast
  have c: "calls s1 = calls s + j" using r1 by (simp add: reaches_def)
  have p: "http_post env (calls s1) (update_request env (update_url env i) h) = Inl e"
    using a c by (simp add: upd_def)
  from attempt_exception[OF rd p, of "int j" err] a obtain s2 where
    b: "update_attempt env (update_url env i) (int j) err s1 = (Inr (Inl (False, msg e)), s2)"
    and r2: "reaches s1 1 [Post UpdateCall upd] s2"
    unfolding upd_def by blast
  from reaches_trans[OF r1 r2]
  have "calls s2 = calls s + j + 1"
    and "effects (trace s2) = effects (trace s) @ replicate (Suc j) (Post UpdateCall upd)"
    by (simp_all add: reaches_def replicate_append_same)
  with fin[OF b]
  show "\<exists>s'. update_subtask env s = (Inr (False, msg e), s')
               \<and> calls s' = calls s + j + 1
               \<and> effects (trace s') = effects (trace s) @ replicate (Suc j) (Post UpdateCall upd)"
    by blast
qed

theorem resolve_update_failures_witness:
  "ready ex_state ex_headers (JInt 1001) (JInt 7) (JInt 11)
   \<and> retryable (http_post timeouts_world 0 (ex_update timeouts_world))
   \<and> retryable (http_post timeouts_world 1 (ex_update timeouts_world))
   \<and> retryable (http_post timeouts_world 2 (ex_update timeouts_world))
   \<and> (\<exists>err s'. update_subtask timeouts_world ex_state = (Inr (False, err), s')
          \<and> calls s' = 3
          \<and> effects (trace s') = replicate 3 (Post UpdateCall (ex_update timeouts_world)))
   \<and> retryable (http_post broken_world 0 (ex_update broken_world))
   \<and> http_post broken_world 1 (ex_update broken_world)
       = Inl (Exn RequestError ''Connection aborted.'')
   \<and> (\<exists>s'. update_subtask broken_world ex_state = (Inr (False, ''Connection aborted.''), s')
          \<and> calls s' = 2
          \<and> effects (trace s') = replicate 2 (Post UpdateCall (ex_update broken_world)))"
proof -
  let ?T = timeouts_world
  let ?B = broken_world
  let ?e = "Exn RequestError ''Connection aborted.''"
  have t: "retryable (http_post ?T 0 (ex_update ?T))" "retryable (http_post ?T 1 (ex_update ?T))"
    "retryable (http_post ?T 2 (ex_update ?T))"
    by (simp_all add: timeouts_world_def ex_defs outcome_defs)
  have nT: "nat (RETRIES ?T) = 3" by (simp add: timeouts_world_def ex_defs)
  have hT: "\<forall>n < nat (RETRIES ?T). retryable (http_post ?T (calls ex_state + n)
              (update_request ?T (update_url ?T (JInt 11)) ex_headers))"
    unfolding nT all_less_3 by (simp add: timeouts_world_def ex_defs outcome_defs)
  from resolve_update_failures[OF ex_ready, of ?T] hT obtain err s' where
    "update_subtask ?T ex_state = (Inr (False, err), s')"
    "calls s' = calls ex_state + nat (RETRIES ?T)"
    "effects (trace s') = effects (trace ex_state) @ replicate (nat (RETRIES ?T))
        (Post UpdateCall (update_request ?T (update_url ?T (JInt 11)) ex_headers))"
    by blast
  then have A: "\<exists>err s'. update_subtask ?T ex_state = (Inr (False, err), s')
          \<and> calls s' = 3
          \<and> effects (trace s') = replicate 3 (Post UpdateCall (ex_update ?T))"
    unfolding nT by (auto simp: ex_state_simps ex_update_def effects_def)
  have b0: "retryable (http_post ?B 0 (ex_update ?B))"
    by (simp add: broken_world_def ex_defs outcome_defs)
  have b1: "http_post ?B 1 (ex_update ?B) = Inl ?e"
    by (simp add: broken_world_def ex_defs)
  have hB: "(1::nat) < nat (RETRIES ?B)
      \<and> (\<forall>n < 1. retryable (http_post ?B (calls ex_state + n)
              (update_request ?B (update_url ?B (JInt 11)) ex_headers)))
      \<and> http_post ?B (calls ex_state + 1)
              (update_request ?B (update_url ?B (JInt 11)) ex_headers) = Inl ?e
      \<and> is_RequestException ?e \<and> \<not> is_Timeout ?e"
    by (simp add: broken_world_def ex_defs outcome_defs)
  from resolve_update_failures[OF ex_ready, of ?B] hB obtain s'' where
    "update_subtask ?B ex_state = (Inr (False, msg ?e), s'')"
    "calls s'' = calls ex_state + 1 + 1"
    "effects (trace s'') = effects (trace ex_state) @ replicate (Suc 1)
        (Post UpdateCall (update_request ?B (update_url ?B (JInt 11)) ex_headers))"
    by blast
  then have B: "\<exists>s'. update_subtask ?B ex_state = (Inr (False, ''Connection aborted.''), s')
          \<and> calls s' = 2
          \<and> effects (trace s') = replicate 2 (Post UpdateCall (ex_update ?B))"
    by (auto simp: ex_state_simps ex_update_def effects_def numeral_2_eq_2)
  from ex_ready t A b0 b1 B show ?thesis by blast
qed

text \<open>
  Claim C4, with HTTP 200 for 2xx. When the update call is answered with HTTP 200 and a
  body whose status does not equal 0, \<open>update_subtask\<close> returns failure at once:
  the detail is "API returned unexpected status: " followed by the value as Python
  prints it, no verification poll is made and no further update attempt.
\<close>

theorem resolve_rejected:
  fixes env s h t k i
  defines "upd \<equiv> update_request env (update_url env i) h"
  assumes "ready s h t k i"
    and "j < nat (RETRIES env)"
    and "\<forall>n < j. retryable (http_post env (calls s + n) upd)"
    and "http_post env (calls s + j) upd = Inr resp"
    and "status_code resp = 200"
    and "body_status resp = Inr st"
    and "\<not> py_eq_int st 0"
  shows "\<exists>s'. update_subtask env s
             = (Inr (False, ''API returned unexpected status: '' @ py_str env st), s')
           \<and> calls s' = calls s + j + 1
           \<and> effects (trace s') = effects (trace s) @ replicate (Suc j) (Post UpdateCall upd)"
proof -
  from update_subtask_at[OF assms(2,3)] assms(4) obtain err s1 where
    r1: "reaches s j (replicate j (Post UpdateCall upd)) s1"
    and fin: "\<And>ret s2. update_attempt env (update_url env i) (int j) err s1 = (Inr (Inl ret), s2)
                \<Longrightarrow> update_subtask env s = (Inr ret, s2)"
    unfolding upd_def by blast
  have rd: "ready s1 h t k i" using r1 assms(2) reaches_ready by blast
  have c: "calls s1 = calls s + j" using r1 by (simp add: reaches_def)
  have p: "http_post env (calls s1) (update_request env (update_url env i) h) = Inr resp"
    using assms(5) c by (simp add: upd_def)
  from attempt_rejected[OF rd p assms(6,7,8), of "int j" err] obtain s2 where
    a: "update_attempt env (update_url env i) (int j) err s1
          = (Inr (Inl (False, ''API returned unexpected status: '' @ py_str env st)), s2)"
    and r2: "reaches s1 1 [Post UpdateCall upd] s2"
    unfolding upd_def by blast
  from reaches_trans[OF r1 r2]
  have "calls s2 = calls s + j + 1"
    and "effects (trace s2) = effects (trace s) @ replicate (Suc j) (Post UpdateCall upd)"
    by (simp_all add: reaches_def replicate_append_same)
  with fin[OF a] show ?thesis by blast
qed

theorem resolve_rejected_witness:
  "ready ex_state ex_headers (JInt 1001) (JInt 7) (JInt 11)
   \<and> http_post rejected_world 0 (ex_update rejected_world)
       = reply 200 ''refused'' (JObj [(''status'', JInt 7)])
   \<and> (\<exists>s'. update_subtask rejected_world ex_state
              = (Inr (False, ''API returned unexpected status: 7''), s')
          \<and> calls s' = 1
          \<and> effects (trace s') = [Post UpdateCall (ex_update rejected_world)])"
proof -
  let ?W = rejected_world
  let ?resp = "\<lparr>status_code = 200, body_text = ''refused'',
                 json_result = Inr (JObj [(''status'', JInt 7)])\<rparr>"
  have h2: "0 < nat (RETRIES ?W)" by (simp add: rejected_world_def ex_defs)
  have h3: "\<forall>n < 0. retryable (http_post ?W (calls ex_state + n)
              (update_request ?W (update_url ?W (JInt 11)) ex_headers))"
    by simp
  have h4: "http_post ?W (calls ex_state + 0)
              (update_request ?W (update_url ?W (JInt 11)) ex_headers) = Inr ?resp"
    by (simp add: rejected_world_def ex_defs)
  have h5: "status_code ?resp = 200" by simp
  have h6: "body_status ?resp = Inr (JInt 7)" by (simp add: body_status_def and_then_def)
  have h7: "\<not> py_eq_int (JInt 7) 0" by simp
  have str: "py_str ?W (JInt 7) = ''7''" by (simp add: py_str_def str_int_def)
  from resolve_rejected[OF ex_ready h2 h3 h4 h5 h6 h7] obtain s' where
    "update_subtask ?W ex_state
       = (Inr (False, ''API returned unexpected status: '' @ py_str ?W (JInt 7)), s')"
    "calls s' = calls ex_state + 0 + 1"
    "effects (trace s') = effects (trace ex_state)
       @ replicate (Suc 0) (Post UpdateCall (update_request ?W (update_url ?W (JInt 11)) ex_headers))"
    by blast
  then have "update_subtask ?W ex_state
         = (Inr (False, ''API returned unexpected status: 7''), s')
      \<and> calls s' = 1 \<and> effects (trace s') = [Post UpdateCall (ex_update ?W)]"
    by (simp add: str ex_state_simps ex_update_def effects_def)
  moreover have "http_post ?W 0 (ex_update ?W) = reply 200 ''refused'' (JObj [(''status'', JInt 7)])"
    using h4 by (simp add: ex_state_simps ex_update_def reply_def)
  ultimately show ?thesis using ex_ready by blast
qed

text \<open>
  Claim C4 as stated covers every 2xx response. An answer 201 with body status 7 is an
  HTTP error for the code: the update is attempted \<open>RETRIES\<close> times and the detail
  is that of the HTTP error.
\<close>

theorem resolve_created_refusal_retried:
  "http_post (created_world 7 1) 0 (ex_update (created_world 7 1))
     = reply 201 ''created'' (JObj [(''status'', JInt 7)])
   \<and> fst (update_subtask (created_world 7 1) ex_state)
       = Inr (False, ''Error updating subtask. Status code: 201. Response: created'')
   \<and> calls (snd (update_subtask (created_world 7 1) ex_state)) = 3"
  by code_simp

text \<open>
  Claim C5, with HTTP 200 for 2xx. When the first update call is answered with HTTP 200
  and body status 0 and the first verification poll reports the count 1,
  \<open>update_subtask\<close> returns success with an empty detail after exactly one update
  call and one poll, without sleeping.
\<close>

theorem resolve_first_poll_removed:
  fixes env s h t k i
  defines "upd \<equiv> update_request env (update_url env i) h"
    and "q \<equiv> query_request env h t k"
  assumes "ready s h t k i"
    and "0 < RETRIES env"
    and "accepted (http_post env (calls s) upd)"
    and "reports_count_1 (http_post env (calls s + 1) q)"
  shows "\<exists>s'. update_subtask env s = (Inr (True, []), s')
           \<and> calls s' = calls s + 2
           \<and> effects (trace s') = effects (trace s) @ [Post UpdateCall upd, Post QueryCall q]"
proof -
  have pos: "0 < nat (RETRIES env)" using assms(4) by simp
  from update_subtask_at[OF assms(3) pos] obtain err s1 where
    r1: "reaches s 0 [] s1"
    and fin: "\<And>ret s2. update_attempt env (update_url env i) (int 0) err s1 = (Inr (Inl ret), s2)
                \<Longrightarrow> update_subtask env s = (Inr ret, s2)"
    by auto
  have rd: "ready s1 h t k i" using r1 assms(3) reaches_ready by blast
  have c: "calls s1 = calls s" using r1 by (simp add: reaches_def)
  have acc: "accepted (http_post env (calls s1) (update_request env (update_url env i) h))"
    using assms(5) c by (simp add: upd_def)
  have hit: "reports_count_1 (http_post env (calls s1 + 1 + 0) (query_request env h t k))"
    using assms(6) c by (simp add: q_def)
  from attempt_removed[OF rd acc pos _ hit, of "int 0" err] obtain s2 where
    a: "update_attempt env (update_url env i) (int 0) err s1 = (Inr (Inl (True, [])), s2)"
    and r2: "reaches s1 (0 + 2) (Post UpdateCall upd # concat (replicate 0 [Post QueryCall q, Sleep 5])
                @ [Post QueryCall q]) s2"
    unfolding upd_def q_def by auto
  from reaches_trans[OF r1 r2]
  have "calls s2 = calls s + 2"
    and "effects (trace s2) = effects (trace s) @ [Post UpdateCall upd, Post QueryCall q]"
    by (simp_all add: reaches_def)
  with fin[OF a] show ?thesis by blast
qed

theorem resolve_first_poll_removed_witness:
  "ready ex_state ex_headers (JInt 1001) (JInt 7) (JInt 11)
   \<and> 0 < RETRIES removed_world
   \<and> accepted (http_post removed_world 0 (ex_update removed_world))
   \<and> reports_count_1 (http_post removed_world 1 (ex_query removed_world))
   \<and> (\<exists>s'. update_subtask removed_world ex_state = (Inr (True, []), s')
          \<and> calls s' = 2
          \<and> effects (trace s')
              = [Post UpdateCall (ex_update removed_world),
                 Post QueryCall (ex_query removed_world)])"
proof -
  let ?W = removed_world
  have h1: "0 < RETRIES ?W" by (simp add: removed_world_def ex_defs)
  have h2: "accepted (http_post ?W (calls ex_state)
              (update_request ?W (update_url ?W (JInt 11)) ex_headers))"
    by (simp add: removed_world_def ex_defs outcome_defs)
  have h3: "reports_count_1 (http_post ?W (calls ex_state + 1)
              (query_request ?W ex_headers (JInt 1001) (JInt 7)))"
    by (simp add: removed_world_def ex_defs outcome_defs)
  from resolve_first_poll_removed[OF ex_ready h1 h2 h3] obtain s' where
    "update_subtask ?W ex_state = (Inr (True, []), s')"
    "calls s' = calls ex_state + 2"
    "effects (trace s') = effects (trace ex_state)
       @ [Post UpdateCall (update_request ?W (update_url ?W (JInt 11)) ex_headers),
          Post QueryCall (query_request ?W ex_headers (JInt 1001) (JInt 7))]"
    by blast
  then have "update_subtask ?W ex_state = (Inr (True, []), s') \<and> calls s' = 2
      \<and> effects (trace s') = [Post UpdateCall (ex_update ?W), Post QueryCall (ex_query ?W)]"
    by (simp add: ex_state_simps ex_update_def ex_query_def effects_def)
  with ex_ready h1 h2 h3 show ?thesis
    by (auto simp: ex_state_simps ex_update_def ex_query_def)
qed

text \<open>
  Claim C5 as stated covers every 2xx response. With the answer 201 and body status 0
  to the update call, and a platform whose polls would report the count 1, the resolver
  fails after three update calls.
\<close>

theorem resolve_created_retried:
  "http_post (created_world 0 1) 0 (ex_update (created_world 0 1))
     = reply 201 ''created'' (JObj [(''status'', JInt 0)])
   \<and> reports_count_1 (http_post (created_world 0 1) 1 (ex_query (created_world 0 1)))
   \<and> fst (update_subtask (created_world 0 1) ex_state)
       = Inr (False, ''Error updating subtask. Status code: 201. Response: created'')
   \<and> calls (snd (update_subtask (created_world 0 1) ex_state)) = 3"
  by code_simp

section \<open>Properties of the verification client\<close>

text \<open>
  Claim C6. One call of \<open>was_subtask_removed\<close>, in a state that holds the ticket
  id and the task id, returns \<open>(True, "")\<close> exactly when the HTTP call is answered
  with status 200 and a JSON object whose \<open>data\<close> array starts with a row whose
  \<open>total_subtasks\<close> field is present and equals 1 (under Python's \<open>==\<close>: the
  number 1 or \<open>true\<close>). With status 200 and a first row whose field is absent or
  holds any other value it returns \<open>False\<close> with the raw text of the response; with
  another status \<open>False\<close> with the body text; on a timeout
  \<open>(False, "Processing timeout")\<close>; on any other request exception \<open>False\<close>
  with the text of the exception. It makes exactly one HTTP call: there is no retry at
  this layer.
\<close>

theorem was_subtask_removed_contract:
  fixes env s secrets t k
  defines "q \<equiv> query_request env secrets t k"
  defines "r \<equiv> http_post env (calls s) q"
  defines "W \<equiv> was_subtask_removed env secrets s"
  assumes "getitem_key (data_dsr s) ''ticketId'' = Inr t"
    and "getitem_key (data_subtask s) ''task_id'' = Inr k"
  shows "(fst W = Inr (True, []) \<longleftrightarrow>
           (\<exists>resp kvs cols rows n. r = Inr resp \<and> status_code resp = 200
              \<and> json_result resp = Inr (JObj kvs)
              \<and> map_of kvs ''data'' = Some (JArr (JObj cols # rows))
              \<and> map_of cols ''total_subtasks'' = Some n
              \<and> (n = JInt 1 \<or> n = JBool True)))
       \<and> (\<forall>resp kvs cols rows. r = Inr resp \<and> status_code resp = 200
              \<and> json_result resp = Inr (JObj kvs)
              \<and> map_of kvs ''data'' = Some (JArr (JObj cols # rows))
              \<and> (\<forall>n. map_of cols ''total_subtasks'' = Some n
                     \<longrightarrow> n \<noteq> JInt 1 \<and> n \<noteq> JBool True)
             \<longrightarrow> fst W = Inr (False, body_text resp))
       \<and> (\<forall>resp. r = Inr resp \<and> status_code resp \<noteq> 200 \<longrightarrow> fst W = Inr (False, body_text resp))
       \<and> (\<forall>e. r = Inl e \<and> cls e = Timeout \<longrightarrow> fst W = Inr (False, ''Processing timeout''))
       \<and> (\<forall>e. r = Inl e \<and> (cls e = RequestError \<or> cls e = RequestsJSONDecodeError)
             \<longrightarrow> fst W = Inr (False, msg e))
       \<and> calls (snd W) = calls s + 1
       \<and> effects (trace (snd W)) = effects (trace s) @ [Post QueryCall q]"
proof -
  note c = wsr_classification[OF assms(4,5), of env secrets, folded q_def r_def W_def]
  have tmo: "fst W = Inr (False, ''Processing timeout'')" if "r = Inl e \<and> cls e = Timeout" for e
    using c that by (simp add: is_Timeout_def)
  have exc: "fst W = Inr (False, msg e)"
    if "r = Inl e \<and> (cls e = RequestError \<or> cls e = RequestsJSONDecodeError)" for e
  proof -
    from that have "\<not> is_Timeout e \<and> is_RequestException e"
      by (auto simp: is_Timeout_def is_RequestException_def)
    with that c show ?thesis by blast
  qed
  have one: "reports_count_1 r \<longleftrightarrow>
           (\<exists>resp kvs cols rows n. r = Inr resp \<and> status_code resp = 200
              \<and> json_result resp = Inr (JObj kvs)
              \<and> map_of kvs ''data'' = Some (JArr (JObj cols # rows))
              \<and> map_of cols ''total_subtasks'' = Some n
              \<and> (n = JInt 1 \<or> n = JBool True))"
    by (cases r) (auto simp: reports_count_1_def total_is_1_iff)
  have other: "fst W = Inr (False, body_text resp)"
    if "r = Inr resp \<and> status_code resp = 200
              \<and> json_result resp = Inr (JObj kvs)
              \<and> map_of kvs ''data'' = Some (JArr (JObj cols # rows))
              \<and> (\<forall>n. map_of cols ''total_subtasks'' = Some n
                     \<longrightarrow> n \<noteq> JInt 1 \<and> n \<noteq> JBool True)"
    for resp kvs cols rows
  proof -
    from that have "total_subtasks_is_1 resp = Inr False"
      using total_not_1[of resp kvs cols rows] by blast
    with that c show ?thesis by blast
  qed
  from c one other tmo exc show ?thesis by blast
qed

theorem was_subtask_removed_contract_witness:
  "fst (was_subtask_removed (world (script [rows_answer [counted 1, counted 5]]))
          ex_headers ex_state) = Inr (True, [])
   \<and> fst (was_subtask_removed (world (script [rows_answer [counted 5, counted 1]]))
            ex_headers ex_state) = Inr (False, ''rows'')
   \<and> fst (was_subtask_removed (world (script [rows_answer [JObj [(''task_id'', JInt 7)]]]))
            ex_headers ex_state) = Inr (False, ''rows'')
   \<and> fst (was_subtask_removed (world (script [reply 503 ''Service Unavailable'' JNull]))
            ex_headers ex_state)
       = Inr (False, ''Service Unavailable'')
   \<and> fst (was_subtask_removed (world (script [timed_out])) ex_headers ex_state)
       = Inr (False, ''Processing timeout'')
   \<and> fst (was_subtask_removed (world (script [connection_error])) ex_headers ex_state)
       = Inr (False, ''Connection aborted.'')
   \<and> calls (snd (was_subtask_removed (world (script [rows_answer [counted 5, counted 1]]))
                ex_headers ex_state)) = 1"
proof -
  have h1: "getitem_key (data_dsr ex_state) ''ticketId'' = Inr (JInt 1001)"
    and h2: "getitem_key (data_subtask ex_state) ''task_id'' = Inr (JInt 7)"
    by (simp_all add: ex_defs)
  note T = was_subtask_removed_contract[OF h1 h2, where secrets = ex_headers]
  note defs = ex_defs rows_answer_def counted_def is_Timeout_def is_RequestException_def
  have a: "fst (was_subtask_removed (world (script [rows_answer [counted 1, counted 5]]))
             ex_headers ex_state) = Inr (True, [])"
    using T[where env = "world (script [rows_answer [counted 1, counted 5]])"]
    by (simp add: defs)
  have b: "fst (was_subtask_removed (world (script [rows_answer [counted 5, counted 1]]))
             ex_headers ex_state) = Inr (False, ''rows'')"
    and g: "calls (snd (was_subtask_removed
             (world (script [rows_answer [counted 5, counted 1]])) ex_headers ex_state)) = 1"
    using T[where env = "world (script [rows_answer [counted 5, counted 1]])"]
    by (simp_all add: defs)
  have c: "fst (was_subtask_removed (world (script [rows_answer [JObj [(''task_id'', JInt 7)]]]))
             ex_headers ex_state) = Inr (False, ''rows'')"
    using T[where env = "world (script [rows_answer [JObj [(''task_id'', JInt 7)]]])"]
    by (simp add: defs)
  have d: "fst (was_subtask_removed (world (script [reply 503 ''Service Unavailable'' JNull]))
             ex_headers ex_state) = Inr (False, ''Service Unavailable'')"
    using T[where env = "world (script [reply 503 ''Service Unavailable'' JNull])"]
    by (simp add: defs)
  have e: "fst (was_subtask_removed (world (script [timed_out])) ex_headers ex_state)
             = Inr (False, ''Processing timeout'')"
    using T[where env = "world (script [timed_out])"]
    by (simp add: defs)
  have f: "fst (was_subtask_removed (world (script [connection_error])) ex_headers ex_state)
             = Inr (False, ''Connection aborted.'')"
    using T[where env = "world (script [connection_error])"]
    by (simp add: defs)
  from a b c d e f g show ?thesis by blast
qed

section \<open>Properties of the orchestrator and of the notification sink\<close>

text \<open>
  Claim C7 at a ticket whose first subtask the platform refuses while the Teams webhook
  cannot be reached. The resolver returns failure for the first subtask; the call to the
  Teams webhook raises a connection error, which \<open>send_teams_notification\<close> does
  not catch: \<open>process_subtasks\<close> ends with that exception in place of the result
  False, and the HTTP calls of the run are the update call and the one Teams call, so
  the Google Chat webhook has not been called.
\<close>

theorem teams_failure_stops_notification:
  "fst (resolve teams_down_world (subtask_of 11) ex_state)
     = Inr (False, ''API returned unexpected status: 7'')
   \<and> fst (process_subtasks teams_down_world ex_state)
       = Inl (Exn RequestError ''Connection aborted.'')
   \<and> sites (trace (snd (process_subtasks teams_down_world ex_state)))
       = [UpdateCall, TeamsCall]"
  by code_simp

text \<open>
  Claim C8 at a ticket whose first subtask the platform refuses while a webhook cannot
  be reached. With the Teams webhook answering 202 and the Google Chat call raising a
  connection error, that exception is the outcome of \<open>process_subtasks\<close> in place
  of the result False; with the Teams call raising, the Google Chat webhook is not
  called at all. The failure of a send is escalated to the caller and affects the other
  channel.
\<close>

theorem notification_exception_escalates:
  "fst (resolve chat_down_world (subtask_of 11) ex_state)
     = Inr (False, ''API returned unexpected status: 7'')
   \<and> fst (process_subtasks chat_down_world ex_state)
       = Inl (Exn RequestError ''Connection aborted.'')
   \<and> sites (trace (snd (process_subtasks chat_down_world ex_state)))
       = [UpdateCall, TeamsCall, GoogleChatCall]
   \<and> sites (trace (snd (process_subtasks teams_down_world ex_state)))
       = [UpdateCall, TeamsCall]"
  by code_simp

section \<open>Properties of the entry point\<close>







end
